theory Spec2Isabelle
  imports Main
begin

section \<open>Data model\<close>

text \<open>
  A Go \<open>error\<close> value is modelled by its message; \<open>nil\<close> is \<open>None\<close> of
  \<open>error option\<close>, and a function returning \<open>(T, error)\<close> returns \<open>error + T\<close>.
  Go strings and byte slices are \<open>string\<close> (lists of 8-bit characters).
\<close>

type_synonym error = string

text \<open>The anonymous struct of the field \<open>Registry\<close> (main.go, lines 19-24).\<close>

record registry =
  Domain' :: string
  Username :: string
  Password :: string
  Project :: string

text \<open>The struct \<open>Config\<close> (main.go, lines 18-26).\<close>

record Config =
  Registry :: registry
  DockerRegistries :: "string list"

text \<open>
  What the program prints with \<open>fmt.Print*\<close>: one constructor for each print statement
  of main.go (the texts themselves are not ASCII), with the values formatted into it.
\<close>

datatype line =
    Help
  | Invocation string string
  | PromptDomain
  | PromptUsername
  | PromptPassword
  | ConfigSaved
  | UsagePull
  | UsagePullLocal
  | Pulling string
  | PullingFrom string string
  | PullError error string
  | Tagging string string
  | LoggingIn string
  | Pushing string
  | Synced
  | PulledLocal
  | Unknown string

text \<open>The calls of \<open>log.Fatalf\<close>: each prints its message and exits with status 1.\<close>

datatype fatal =
    HomeDirError error
  | ConfigureError error
  | LoadConfigError error
  | AllPullsFailed
  | TagError error string
  | LoginError error string
  | PushError error string

datatype exit = Return | Fatal fatal

fun exit_status :: "exit \<Rightarrow> nat" where
  "exit_status Return = 0"
| "exit_status (Fatal f) = 1"

text \<open>
  The state of the world the process runs in: the file system, what is still to be
  read from standard input (one element for each read of the descriptor, the empty one
  for a read of no bytes; after the last element every read is of no bytes), what has
  been printed, and the external commands run so far, each with its argument list.
\<close>

record 'fs world =
  fs :: 'fs
  stdin :: "string list"
  stdout :: "line list"
  calls :: "(string \<times> string list) list"

text \<open>
  The operating system and the libraries outside the repository, as parameters:
  \<open>runtime.GOOS\<close>, \<open>os.UserHomeDir\<close>, \<open>filepath.Join\<close>, \<open>os.MkdirAll\<close> (its error
  is dropped by the caller), \<open>ioutil.ReadFile\<close>, \<open>ioutil.WriteFile\<close>,
  \<open>yaml.Marshal\<close>, \<open>yaml.Unmarshal\<close> into a zero \<open>Config\<close>, \<open>strings.TrimSpace\<close>, and
  \<open>exec.Command(...).CombinedOutput()\<close>. The result of running a command may depend on
  the number of commands run before it, on the command and on its arguments.
\<close>

record 'fs platform =
  GOOS :: string
  UserHomeDir :: "error + string"
  filepath_Join :: "string list \<Rightarrow> string"
  MkdirAll :: "string \<Rightarrow> 'fs \<Rightarrow> 'fs"
  ReadFile :: "string \<Rightarrow> 'fs \<Rightarrow> error + string"
  WriteFile :: "string \<Rightarrow> string \<Rightarrow> 'fs \<Rightarrow> error option \<times> 'fs"
  Marshal :: "Config \<Rightarrow> error + string"
  Unmarshal :: "string \<Rightarrow> error + Config"
  TrimSpace :: "string \<Rightarrow> string"
  CombinedOutput :: "nat \<Rightarrow> string \<Rightarrow> string list \<Rightarrow> string \<times> error option"

section \<open>String helpers of the Go library\<close>

text \<open>\<open>strings.Split(s, sep)\<close> for a separator of one byte (the source passes \<open>"/"\<close>).\<close>

fun Split :: "string \<Rightarrow> char \<Rightarrow> string list" where
  "Split [] sep = [[]]"
| "Split (c # cs) sep =
     (if c = sep then [] # Split cs sep
      else (case Split cs sep of
              [] \<Rightarrow> [[c]]
            | p # ps \<Rightarrow> (c # p) # ps))"

text \<open>\<open>strings.Join(elems, sep)\<close>.\<close>

fun strings_Join :: "string list \<Rightarrow> string \<Rightarrow> string" where
  "strings_Join [] sep = []"
| "strings_Join [x] sep = x"
| "strings_Join (x # y # ys) sep = x @ sep @ strings_Join (y # ys) sep"

text \<open>\<open>fmt.Sprintf("%s/%s", a, b)\<close>.\<close>

definition Sprintf_slash :: "string \<Rightarrow> string \<Rightarrow> string" where
  "Sprintf_slash a b = a @ ''/'' @ b"

definition println :: "line \<Rightarrow> 'fs world \<Rightarrow> 'fs world" where
  "println l w = w\<lparr>stdout := stdout w @ [l]\<rparr>"

section \<open>Configuration store\<close>

text \<open>\<open>GetConfigPath\<close> (lines 29-37); \<open>Inl\<close> is the fatal exit of line 32.\<close>

definition GetConfigPath :: "'fs platform \<Rightarrow> 'fs world \<Rightarrow> (fatal + string) \<times> 'fs world" where
  "GetConfigPath P w =
     (case UserHomeDir P of
        Inl err \<Rightarrow> (Inl (HomeDirError err), w)
      | Inr homeDir \<Rightarrow>
          (let configDir = filepath_Join P [homeDir, ''.config'', ''docker-mirror''];
               w1 = w\<lparr>fs := MkdirAll P configDir (fs w)\<rparr>
           in (Inr (filepath_Join P [configDir, ''config.yaml'']), w1)))"

text \<open>\<open>LoadConfig\<close> (lines 40-51).\<close>

definition LoadConfig :: "'fs platform \<Rightarrow> string \<Rightarrow> 'fs world \<Rightarrow> error + Config" where
  "LoadConfig P configFile w =
     (case ReadFile P configFile (fs w) of
        Inl err \<Rightarrow> Inl err
      | Inr data \<Rightarrow>
          (case Unmarshal P data of
             Inl err \<Rightarrow> Inl err
           | Inr config \<Rightarrow> Inr config))"

text \<open>\<open>SaveConfig\<close> (lines 54-60).\<close>

definition SaveConfig ::
  "'fs platform \<Rightarrow> string \<Rightarrow> Config \<Rightarrow> 'fs world \<Rightarrow> error option \<times> 'fs world" where
  "SaveConfig P configFile config w =
     (case Marshal P config of
        Inl err \<Rightarrow> (Some err, w)
      | Inr data \<Rightarrow>
          (case WriteFile P configFile data (fs w) of
             (err, fs') \<Rightarrow> (err, w\<lparr>fs := fs'\<rparr>)))"

section \<open>Process executor\<close>

text \<open>The rewrite of the argument list in \<open>Execute\<close> (lines 64-66).\<close>

definition platform_args :: "'fs platform \<Rightarrow> string \<Rightarrow> string list \<Rightarrow> string list" where
  "platform_args P command args =
     (if command = ''docker'' \<and> length args > 0 \<and> args ! 0 = ''pull'' \<and> GOOS P = ''darwin''
      then take 1 args @ ([''--platform'', ''linux/amd64''] @ drop 1 args)
      else args)"

text \<open>\<open>Execute\<close> (lines 63-72).\<close>

definition Execute ::
  "'fs platform \<Rightarrow> string \<Rightarrow> string list \<Rightarrow> 'fs world \<Rightarrow> (string \<times> error option) \<times> 'fs world" where
  "Execute P command args w =
     (let args = platform_args P command args;
          w1 = println (Invocation command (strings_Join args '' '')) w;
          (output, err) = CombinedOutput P (length (calls w1)) command args
      in ((output, err), w1\<lparr>calls := calls w1 @ [(command, args)]\<rparr>))"

section \<open>Interactive configuration\<close>

text \<open>
  \<open>bufio.NewReader(os.Stdin).ReadString('\n')\<close>: the reader fills its buffer with one
  read of the descriptor after another until the delimiter has arrived, and returns the
  bytes up to and including it. A read of no bytes is the end of the input (\<open>io.EOF\<close>):
  the reader then returns what it has (the error is dropped by the caller), and the next
  reader starts with the read after it. What the reader had buffered behind the
  delimiter is lost with the reader.
\<close>

fun ReadString :: "string list \<Rightarrow> string \<Rightarrow> string \<times> string list" where
  "ReadString [] acc = (acc, [])"
| "ReadString (chunk # rest) acc =
     (if chunk = [] then (acc, rest)
      else if CHR 0x0A \<in> set chunk
      then (acc @ takeWhile (\<lambda>c. c \<noteq> CHR 0x0A) chunk @ [CHR 0x0A], rest)
      else ReadString rest (acc @ chunk))"

text \<open>\<open>Prompt\<close> (lines 75-80).\<close>

definition Prompt :: "'fs platform \<Rightarrow> line \<Rightarrow> 'fs world \<Rightarrow> string \<times> 'fs world" where
  "Prompt P prompt w =
     (let w1 = println prompt w;
          (input, rest) = ReadString (stdin w1) []
      in (TrimSpace P input, w1\<lparr>stdin := rest\<rparr>))"

text \<open>The zero value \<open>&Config{}\<close>.\<close>

definition Config_zero :: Config where
  "Config_zero =
     \<lparr>Registry = \<lparr>Domain' = '''', Username = '''', Password = '''', Project = ''''\<rparr>,
      DockerRegistries = []\<rparr>"

text \<open>\<open>Configure\<close> (lines 83-98).\<close>

definition Configure :: "'fs platform \<Rightarrow> string \<Rightarrow> 'fs world \<Rightarrow> error option \<times> 'fs world" where
  "Configure P configFile w =
     (let config = Config_zero;
          (domain, w1) = Prompt P PromptDomain w;
          config = config\<lparr>Registry := (Registry config)\<lparr>Domain' := domain\<rparr>\<rparr>;
          (username, w2) = Prompt P PromptUsername w1;
          config = config\<lparr>Registry := (Registry config)\<lparr>Username := username\<rparr>\<rparr>;
          (password, w3) = Prompt P PromptPassword w2;
          config = config\<lparr>Registry := (Registry config)\<lparr>Password := password\<rparr>\<rparr>;
          config = config\<lparr>DockerRegistries :=
                     [''docker.m.daocloud.io'', ''quay.m.daocloud.io'', ''k8s.m.daocloud.io'']\<rparr>
      in SaveConfig P configFile config w3)"

section \<open>Pull and push orchestration\<close>

text \<open>
  The loop over the mirror hosts of the \<open>pull\<close> case (lines 168-179), with the
  variables \<open>pullErr\<close> and \<open>pulledRegistry\<close> it assigns.
\<close>

fun pull_loop ::
  "'fs platform \<Rightarrow> string \<Rightarrow> string list \<Rightarrow> error option \<times> string \<Rightarrow> 'fs world
     \<Rightarrow> (error option \<times> string) \<times> 'fs world" where
  "pull_loop P sourceImage [] (pullErr, pulledRegistry) w = ((pullErr, pulledRegistry), w)"
| "pull_loop P sourceImage (registry # rest) (pullErr, pulledRegistry) w =
     (let w1 = println (PullingFrom registry sourceImage) w;
          ((output, err), w2) = Execute P ''docker'' [''pull'', Sprintf_slash registry sourceImage] w1
      in (case err of
            Some e \<Rightarrow>
              pull_loop P sourceImage rest (Some e, pulledRegistry) (println (PullError e output) w2)
          | None \<Rightarrow> ((None, registry), w2)))"

text \<open>Lines 155-180: one bare attempt when the mirror list is empty, the loop otherwise.\<close>

definition pull_attempts ::
  "'fs platform \<Rightarrow> Config \<Rightarrow> string \<Rightarrow> 'fs world \<Rightarrow> (error option \<times> string) \<times> 'fs world" where
  "pull_attempts P config sourceImage w =
     (let pullErr = None; pulledRegistry = '''' in
      if length (DockerRegistries config) = 0 then
        (let w1 = println (Pulling sourceImage) w;
             ((output, err), w2) = Execute P ''docker'' [''pull'', sourceImage] w1
         in (case err of
               Some e \<Rightarrow> ((Some e, pulledRegistry), println (PullError e output) w2)
             | None \<Rightarrow> ((None, ''''), w2)))
      else pull_loop P sourceImage (DockerRegistries config) (pullErr, pulledRegistry) w)"

text \<open>Lines 186-207: tag, log in, push.\<close>

definition tag_login_push ::
  "'fs platform \<Rightarrow> Config \<Rightarrow> string \<Rightarrow> string \<Rightarrow> string \<Rightarrow> 'fs world \<Rightarrow> exit \<times> 'fs world" where
  "tag_login_push P config pulledRegistry sourceImage targetImage w =
     (let sourceImage =
            (if pulledRegistry \<noteq> '''' then Sprintf_slash pulledRegistry sourceImage
             else sourceImage);
          w1 = println (Tagging sourceImage targetImage) w;
          ((output, err), w2) = Execute P ''docker'' [''tag'', sourceImage, targetImage] w1
      in (case err of
            Some e \<Rightarrow> (Fatal (TagError e output), w2)
          | None \<Rightarrow>
              (let w3 = println (LoggingIn (Domain' (Registry config))) w2;
                   ((output, err), w4) =
                     Execute P ''docker''
                       [''login'', Domain' (Registry config), ''-u'', Username (Registry config),
                        ''-p'', Password (Registry config)] w3
               in (case err of
                     Some e \<Rightarrow> (Fatal (LoginError e output), w4)
                   | None \<Rightarrow>
                       (let w5 = println (Pushing targetImage) w4;
                            ((output, err), w6) = Execute P ''docker'' [''push'', targetImage] w5
                        in (case err of
                              Some e \<Rightarrow> (Fatal (PushError e output), w6)
                            | None \<Rightarrow> (Return, println Synced w6)))))))"

text \<open>
  The case \<open>"pull"\<close> of \<open>main\<close> (lines 133-207). The slice \<open>part\<close> is assigned at lines
  141 and 151 and read nowhere else.
\<close>

definition main_pull :: "'fs platform \<Rightarrow> string \<Rightarrow> string list \<Rightarrow> 'fs world \<Rightarrow> exit \<times> 'fs world" where
  "main_pull P configPath Args w =
     (if length Args \<noteq> 3 then (Return, println UsagePull w)
      else
        (let image = Args ! 2;
             sourceImage = image;
             part = Split image CHR ''/''
         in (case LoadConfig P configPath w of
               Inl err \<Rightarrow> (Fatal (LoadConfigError err), w)
             | Inr config \<Rightarrow>
                 (let part = (if length part = 1 then [''library''] @ [part ! 0] else part);
                      targetImage = Sprintf_slash (Domain' (Registry config)) image;
                      ((pullErr, pulledRegistry), w1) = pull_attempts P config sourceImage w
                  in (case pullErr of
                        Some e \<Rightarrow> (Fatal AllPullsFailed, w1)
                      | None \<Rightarrow>
                          tag_login_push P config pulledRegistry sourceImage targetImage w1)))))"

text \<open>The loop of the \<open>pull-local\<close> case (lines 234-244).\<close>

fun pull_local_loop ::
  "'fs platform \<Rightarrow> string \<Rightarrow> string list \<Rightarrow> error option \<Rightarrow> 'fs world
     \<Rightarrow> error option \<times> 'fs world" where
  "pull_local_loop P sourceImage [] pullErr w = (pullErr, w)"
| "pull_local_loop P sourceImage (registry # rest) pullErr w =
     (let w1 = println (PullingFrom registry sourceImage) w;
          ((output, err), w2) = Execute P ''docker'' [''pull'', Sprintf_slash registry sourceImage] w1
      in (case err of
            Some e \<Rightarrow> pull_local_loop P sourceImage rest (Some e) (println (PullError e output) w2)
          | None \<Rightarrow> (None, w2)))"

text \<open>Lines 223-245: one bare attempt when the mirror list is empty, the loop otherwise.\<close>

definition pull_local_attempts ::
  "'fs platform \<Rightarrow> Config \<Rightarrow> string \<Rightarrow> 'fs world \<Rightarrow> error option \<times> 'fs world" where
  "pull_local_attempts P config sourceImage w =
     (let pullErr = None in
      if length (DockerRegistries config) = 0 then
        (let w1 = println (Pulling sourceImage) w;
             ((output, err), w2) = Execute P ''docker'' [''pull'', sourceImage] w1
         in (case err of
               Some e \<Rightarrow> (Some e, println (PullError e output) w2)
             | None \<Rightarrow> (None, w2)))
      else pull_local_loop P sourceImage (DockerRegistries config) pullErr w)"

text \<open>The case \<open>"pull-local"\<close> of \<open>main\<close> (lines 208-251).\<close>

definition main_pull_local ::
  "'fs platform \<Rightarrow> string \<Rightarrow> string list \<Rightarrow> 'fs world \<Rightarrow> exit \<times> 'fs world" where
  "main_pull_local P configPath Args w =
     (if length Args \<noteq> 3 then (Return, println UsagePullLocal w)
      else
        (let image = Args ! 2;
             sourceImage = image
         in (case LoadConfig P configPath w of
               Inl err \<Rightarrow> (Fatal (LoadConfigError err), w)
             | Inr config \<Rightarrow>
                 (let (pullErr, w1) = pull_local_attempts P config sourceImage w
                  in (case pullErr of
                        Some e \<Rightarrow> (Fatal AllPullsFailed, w1)
                      | None \<Rightarrow> (Return, println PulledLocal w1))))))"

section \<open>Command-line dispatch\<close>

text \<open>\<open>main\<close> (lines 118-258); \<open>Args\<close> is \<open>os.Args\<close>.\<close>

definition main :: "'fs platform \<Rightarrow> string list \<Rightarrow> 'fs world \<Rightarrow> exit \<times> 'fs world" where
  "main P Args w =
     (if length Args < 2 then (Return, println Help w)
      else
        (let command = Args ! 1 in
         (case GetConfigPath P w of
            (Inl f, w1) \<Rightarrow> (Fatal f, w1)
          | (Inr configPath, w1) \<Rightarrow>
              if command = ''config'' then
                (case Configure P configPath w1 of
                   (Some err, w2) \<Rightarrow> (Fatal (ConfigureError err), w2)
                 | (None, w2) \<Rightarrow> (Return, println ConfigSaved w2))
              else if command = ''pull'' then main_pull P configPath Args w1
              else if command = ''pull-local'' then main_pull_local P configPath Args w1
              else if command = ''help'' then (Return, println Help w1)
              else (Return, println Help (println (Unknown command) w1)))))"

section \<open>Vocabulary of the properties\<close>

text \<open>A run command is the container engine's subcommand \<open>s\<close>.\<close>

definition is_sub :: "string \<Rightarrow> string \<times> string list \<Rightarrow> bool" where
  "is_sub s c = (fst c = ''docker'' \<and> (case snd c of [] \<Rightarrow> False | a # _ \<Rightarrow> a = s))"

text \<open>The command that \<open>Execute("docker", "pull", target)\<close> runs.\<close>

definition pull_call :: "'fs platform \<Rightarrow> string \<Rightarrow> string \<times> string list" where
  "pull_call P target = (''docker'', platform_args P ''docker'' [''pull'', target])"

text \<open>The output and error of the \<open>i\<close>-th command of a list of run commands.\<close>

definition outcome ::
  "'fs platform \<Rightarrow> (string \<times> string list) list \<Rightarrow> nat \<Rightarrow> string \<times> error option" where
  "outcome P cs i = CombinedOutput P i (fst (cs ! i)) (snd (cs ! i))"

text \<open>The output and error of a pull of \<open>target\<close> run after \<open>k\<close> earlier commands.\<close>

definition pull_result :: "'fs platform \<Rightarrow> nat \<Rightarrow> string \<Rightarrow> string \<times> error option" where
  "pull_result P k target =
     CombinedOutput P k ''docker'' (platform_args P ''docker'' [''pull'', target])"

text \<open>The targets of the pull attempts of a configuration, in the order of the attempts.\<close>

definition pull_targets :: "Config \<Rightarrow> string \<Rightarrow> string list" where
  "pull_targets config img =
     (if DockerRegistries config = [] then [img]
      else map (\<lambda>registry. Sprintf_slash registry img) (DockerRegistries config))"


section \<open>A small platform for concrete runs\<close>

text \<open>
  A line-based stand-in for the YAML library, an in-memory file system that refuses the
  empty path, and a home directory. The results of the external commands are a parameter.
\<close>

definition demo_Marshal :: "Config \<Rightarrow> error + string" where
  "demo_Marshal config =
     Inr (strings_Join
            ([Domain' (Registry config), Username (Registry config), Password (Registry config),
              Project (Registry config)] @ DockerRegistries config) [CHR 0x0A])"

definition demo_Unmarshal :: "string \<Rightarrow> error + Config" where
  "demo_Unmarshal data =
     (case Split data (CHR 0x0A) of
        d # u # p # j # hosts \<Rightarrow>
          Inr \<lparr>Registry = \<lparr>Domain' = d, Username = u, Password = p, Project = j\<rparr>,
               DockerRegistries = hosts\<rparr>
      | _ \<Rightarrow> Inl ''yaml: unmarshal errors'')"

definition demo_platform ::
  "string \<Rightarrow> (nat \<Rightarrow> string \<Rightarrow> string list \<Rightarrow> string \<times> error option)
     \<Rightarrow> (string \<rightharpoonup> string) platform" where
  "demo_platform goos run =
     \<lparr>GOOS = goos,
      UserHomeDir = Inr ''/home/u'',
      filepath_Join = (\<lambda>elems. strings_Join elems ''/''),
      MkdirAll = (\<lambda>dir files. files),
      ReadFile = (\<lambda>name files.
        case files name of
          None \<Rightarrow> Inl ''no such file or directory''
        | Some data \<Rightarrow> Inr data),
      WriteFile = (\<lambda>name data files.
        if name = '''' then (Some ''no such file or directory'', files)
        else (None, files(name \<mapsto> data))),
      Marshal = demo_Marshal,
      Unmarshal = demo_Unmarshal,
      TrimSpace = (\<lambda>s. rev (dropWhile (\<lambda>c. c = CHR 0x0A \<or> c = CHR '' '')
                     (rev (dropWhile (\<lambda>c. c = CHR 0x0A \<or> c = CHR '' '') s)))),
      CombinedOutput = run\<rparr>"

text \<open>A configuration with the mirror hosts \<open>hosts\<close>.\<close>

definition demo_config :: "string list \<Rightarrow> Config" where
  "demo_config hosts =
     \<lparr>Registry = \<lparr>Domain' = ''registry.example.com'', Username = ''alice'',
                  Password = ''secret'', Project = ''mirror''\<rparr>,
      DockerRegistries = hosts\<rparr>"

text \<open>
  A fresh process on the small platform: the configuration file holds the text of
  \<open>config\<close>, and \<open>input\<close> is what the reads of standard input return.
\<close>

definition demo_world :: "Config \<Rightarrow> string list \<Rightarrow> (string \<rightharpoonup> string) world" where
  "demo_world config input =
     \<lparr>fs = (case demo_Marshal config of
              Inl err \<Rightarrow> Map.empty
            | Inr data \<Rightarrow> [''/home/u/.config/docker-mirror/config.yaml'' \<mapsto> data]),
      stdin = input, stdout = [], calls = []\<rparr>"

text \<open>Commands that all succeed, and commands of which the first \<open>m\<close> fail.\<close>

definition all_succeed :: "nat \<Rightarrow> string \<Rightarrow> string list \<Rightarrow> string \<times> error option" where
  "all_succeed k command args = (''done'', None)"

definition first_fail :: "nat \<Rightarrow> nat \<Rightarrow> string \<Rightarrow> string list \<Rightarrow> string \<times> error option" where
  "first_fail m k command args =
     (if k < m then (''connection refused'', Some ''exit status 1'') else (''done'', None))"

text \<open>The commands run after \<open>k\<close> others, for the \<open>k\<close> of a list, fail.\<close>

definition fail_at :: "nat list \<Rightarrow> nat \<Rightarrow> string \<Rightarrow> string list \<Rightarrow> string \<times> error option" where
  "fail_at ks k command args =
     (if k \<in> set ks then (''denied'', Some ''exit status 1'') else (''done'', None))"

text \<open>
  An engine that also refuses a reference that starts with a slash, as the reference
  grammar of the container engine does.
\<close>

definition strict_engine :: "nat \<Rightarrow> nat \<Rightarrow> string \<Rightarrow> string list \<Rightarrow> string \<times> error option" where
  "strict_engine m k command args =
     (if k < m then (''connection refused'', Some ''exit status 1'')
      else if args \<noteq> [] \<and> take 1 (last args) = ''/''
      then (''invalid reference format'', Some ''exit status 1'')
      else (''done'', None))"

text \<open>The small platform with a file system that refuses every write.\<close>

definition readonly_platform ::
  "string \<Rightarrow> (nat \<Rightarrow> string \<Rightarrow> string list \<Rightarrow> string \<times> error option)
     \<Rightarrow> (string \<rightharpoonup> string) platform" where
  "readonly_platform goos run =
     (demo_platform goos run)
       \<lparr>WriteFile := (\<lambda>name data files. (Some ''read-only file system'', files))\<rparr>"

section \<open>Properties of the process executor\<close>

lemma println_simps [simp]:
  "calls (println l w) = calls w"
  "fs (println l w) = fs w"
  "stdin (println l w) = stdin w"
  "stdout (println l w) = stdout w @ [l]"
  by (simp_all add: println_def)

lemma platform_args_other [simp]:
  "a \<noteq> ''pull'' \<Longrightarrow> platform_args P command (a # args) = a # args"
  by (simp add: platform_args_def)

lemma Execute_fst:
  "fst (Execute P command args w) =
     CombinedOutput P (length (calls w)) command (platform_args P command args)"
  by (simp add: Execute_def Let_def split: prod.splits)

lemma Execute_calls:
  "calls (snd (Execute P command args w)) = calls w @ [(command, platform_args P command args)]"
  by (simp add: Execute_def Let_def split: prod.splits)

lemma Execute_frame:
  "fs (snd (Execute P command args w)) = fs w"
  "stdin (snd (Execute P command args w)) = stdin w"
  by (simp_all add: Execute_def Let_def split: prod.splits)

lemma Execute_cases:
  assumes "Execute P command args w = ((out, err), w')"
  shows "CombinedOutput P (length (calls w)) command (platform_args P command args) = (out, err)"
    and "calls w' = calls w @ [(command, platform_args P command args)]"
  using assms Execute_fst [of P command args w] Execute_calls [of P command args w]
  by simp_all

lemma Execute_pull:
  assumes "Execute P ''docker'' [''pull'', t] w = ((out, err), w')"
  shows "pull_result P (length (calls w)) t = (out, err)"
    and "calls w' = calls w @ [pull_call P t]"
  using Execute_cases [OF assms] by (simp_all add: pull_result_def pull_call_def)

lemma is_sub_pull_call [simp]: "is_sub s (pull_call P t) = (s = ''pull'')"
  by (auto simp: is_sub_def pull_call_def platform_args_def)

section \<open>Properties of the fallback loop\<close>

lemma pull_loop_Cons:
  "pull_loop P img (h # hs) (pe, pr) w =
     (case Execute P ''docker'' [''pull'', Sprintf_slash h img] (println (PullingFrom h img) w) of
        ((out, None), w2) \<Rightarrow> ((None, h), w2)
      | ((out, Some e), w2) \<Rightarrow> pull_loop P img hs (Some e, pr) (println (PullError e out) w2))"
  by (simp split: prod.splits option.splits)

text \<open>
  The loop runs the pulls of a prefix of the hosts; all but the last of them fail; it ends
  without error exactly after a pull that succeeds, whose host it remembers.
\<close>

lemma pull_loop_trace:
  "pull_loop P img hosts (pe, pr) w = ((pe', pr'), w') \<Longrightarrow>
   \<exists>n\<le>length hosts.
     calls w' = calls w @ map (\<lambda>h. pull_call P (Sprintf_slash h img)) (take n hosts) \<and>
     (hosts \<noteq> [] \<longrightarrow> 0 < n) \<and>
     (\<forall>i. Suc i < n \<longrightarrow>
        snd (pull_result P (length (calls w) + i) (Sprintf_slash (hosts ! i) img)) \<noteq> None) \<and>
     (pe' = None \<longrightarrow>
        (n = 0 \<and> pe = None \<and> pr' = pr) \<or>
        (0 < n \<and> pr' = hosts ! (n - 1) \<and>
         snd (pull_result P (length (calls w) + (n - 1)) (Sprintf_slash (hosts ! (n - 1)) img)) = None)) \<and>
     (pe' \<noteq> None \<longrightarrow>
        n = length hosts \<and> pr' = pr \<and>
        ((n = 0 \<and> pe' = pe) \<or>
         (0 < n \<and>
          snd (pull_result P (length (calls w) + (n - 1)) (Sprintf_slash (hosts ! (n - 1)) img)) = pe')))"
proof (induction hosts arbitrary: pe pr w)
  case Nil
  then show ?case by simp
next
  case (Cons h hs)
  let ?k = "length (calls w)"
  obtain out err w2 where
    ex: "Execute P ''docker'' [''pull'', Sprintf_slash h img] (println (PullingFrom h img) w) = ((out, err), w2)"
    by (cases "Execute P ''docker'' [''pull'', Sprintf_slash h img] (println (PullingFrom h img) w)") auto
  from Execute_pull [OF ex]
  have res: "pull_result P ?k (Sprintf_slash h img) = (out, err)"
    and cs: "calls w2 = calls w @ [pull_call P (Sprintf_slash h img)]"
    by simp_all
  show ?case
  proof (cases err)
    case None
    with Cons.prems ex have "pe' = None" "pr' = h" "w' = w2"
      by (simp_all add: pull_loop_Cons del: pull_loop.simps)
    with res cs None show ?thesis
      by (intro exI [of _ 1]) simp
  next
    case (Some e)
    with Cons.prems ex
    have again: "pull_loop P img hs (Some e, pr) (println (PullError e out) w2) = ((pe', pr'), w')"
      by (simp add: pull_loop_Cons del: pull_loop.simps)
    have len: "length (calls (println (PullError e out) w2)) = Suc ?k"
      using cs by simp
    from Cons.IH [OF again] obtain n where n: "n \<le> length hs"
      and c: "calls w' = calls (println (PullError e out) w2) @
                map (\<lambda>h. pull_call P (Sprintf_slash h img)) (take n hs)"
      and f: "\<And>i. Suc i < n \<Longrightarrow>
                snd (pull_result P (Suc ?k + i) (Sprintf_slash (hs ! i) img)) \<noteq> None"
      and ok: "pe' = None \<Longrightarrow>
                0 < n \<and> pr' = hs ! (n - 1) \<and>
                snd (pull_result P (Suc ?k + (n - 1)) (Sprintf_slash (hs ! (n - 1)) img)) = None"
      and badn: "pe' \<noteq> None \<Longrightarrow> n = length hs \<and> pr' = pr"
      and badr: "pe' \<noteq> None \<Longrightarrow>
                (n = 0 \<and> pe' = Some e) \<or>
                (0 < n \<and>
                 snd (pull_result P (Suc ?k + (n - 1)) (Sprintf_slash (hs ! (n - 1)) img)) = pe')"
      unfolding len by auto
    have bound: "Suc n \<le> length (h # hs)"
      using n by simp
    have trace: "calls w' = calls w @
        map (\<lambda>h. pull_call P (Sprintf_slash h img)) (take (Suc n) (h # hs))"
      using c cs by simp
    have earlier: "snd (pull_result P (?k + i) (Sprintf_slash ((h # hs) ! i) img)) \<noteq> None"
      if "Suc i < Suc n" for i
    proof (cases i)
      case 0
      then show ?thesis using res Some by simp
    next
      case (Suc j)
      with that f [of j] show ?thesis by simp
    qed
    have good: "0 < Suc n \<and> pr' = (h # hs) ! (Suc n - 1) \<and>
        snd (pull_result P (?k + (Suc n - 1)) (Sprintf_slash ((h # hs) ! (Suc n - 1)) img)) = None"
      if "pe' = None"
      using ok [OF that] by (cases n) simp_all
    have lastres: "snd (pull_result P (?k + n) (Sprintf_slash ((h # hs) ! n) img)) = pe'"
      if "pe' \<noteq> None"
      using badr [OF that] res Some by (cases n) auto
    have bad: "Suc n = length (h # hs) \<and> pr' = pr \<and> 0 < Suc n \<and>
        snd (pull_result P (?k + (Suc n - 1)) (Sprintf_slash ((h # hs) ! (Suc n - 1)) img)) = pe'"
      if "pe' \<noteq> None"
      using badn [OF that] lastres [OF that] by simp
    show ?thesis
      using bound trace earlier good bad by (intro exI [of _ "Suc n"]) blast
  qed
qed

text \<open>The loop of \<open>pull-local\<close> is the loop of \<open>pull\<close> without the remembered host.\<close>

lemma pull_local_loop_eq:
  "pull_local_loop P img hosts pe w =
     (case pull_loop P img hosts (pe, pr) w of ((pe', pr'), w') \<Rightarrow> (pe', w'))"
  by (induction hosts arbitrary: pe w) (simp_all add: Let_def split: prod.splits option.splits)

section \<open>Properties of the orchestration\<close>

lemma GetConfigPath_frame:
  "GetConfigPath P w = (r, w1) \<Longrightarrow> calls w1 = calls w \<and> stdin w1 = stdin w \<and> stdout w1 = stdout w"
  by (auto simp: GetConfigPath_def Let_def split: sum.splits)

lemma pull_attempts_trace:
  assumes "pull_attempts P cfg img w = ((pe', pr'), w')"
  shows "\<exists>n. 0 < n \<and> n \<le> length (pull_targets cfg img) \<and>
     calls w' = calls w @ map (pull_call P) (take n (pull_targets cfg img)) \<and>
     (\<forall>i. Suc i < n \<longrightarrow>
        snd (pull_result P (length (calls w) + i) (pull_targets cfg img ! i)) \<noteq> None) \<and>
     snd (pull_result P (length (calls w) + (n - 1)) (pull_targets cfg img ! (n - 1))) = pe' \<and>
     (pe' = None \<longrightarrow>
        pr' = (if DockerRegistries cfg = [] then '''' else DockerRegistries cfg ! (n - 1))) \<and>
     (pe' \<noteq> None \<longrightarrow> n = length (pull_targets cfg img))"
proof (cases "DockerRegistries cfg = []")
  case True
  obtain out err w2 where
    ex: "Execute P ''docker'' [''pull'', img] (println (Pulling img) w) = ((out, err), w2)"
    by (cases "Execute P ''docker'' [''pull'', img] (println (Pulling img) w)") auto
  from Execute_pull [OF ex]
  have res: "pull_result P (length (calls w)) img = (out, err)"
    and cs: "calls w2 = calls w @ [pull_call P img]"
    by simp_all
  from assms True ex have "pe' = err" "pr' = ''''" "calls w' = calls w2"
    by (auto simp: pull_attempts_def Let_def split: option.splits)
  with res cs True show ?thesis
    by (intro exI [of _ 1]) (simp add: pull_targets_def)
next
  case False
  let ?H = "DockerRegistries cfg"
  let ?k = "length (calls w)"
  from False assms have "pull_loop P img ?H (None, '''') w = ((pe', pr'), w')"
    by (simp add: pull_attempts_def)
  from pull_loop_trace [OF this] obtain n where
    n: "n \<le> length ?H"
    and c: "calls w' = calls w @ map (\<lambda>h. pull_call P (Sprintf_slash h img)) (take n ?H)"
    and pos: "?H \<noteq> [] \<longrightarrow> 0 < n"
    and f: "\<forall>i. Suc i < n \<longrightarrow>
        snd (pull_result P (?k + i) (Sprintf_slash (?H ! i) img)) \<noteq> None"
    and ok: "pe' = None \<longrightarrow>
        (n = 0 \<and> None = None \<and> pr' = '''') \<or>
        (0 < n \<and> pr' = ?H ! (n - 1) \<and>
         snd (pull_result P (?k + (n - 1)) (Sprintf_slash (?H ! (n - 1)) img)) = None)"
    and bad: "pe' \<noteq> None \<longrightarrow>
        n = length ?H \<and> pr' = '''' \<and>
        ((n = 0 \<and> pe' = None) \<or>
         (0 < n \<and>
          snd (pull_result P (?k + (n - 1)) (Sprintf_slash (?H ! (n - 1)) img)) = pe'))"
    by blast
  from pos False have n0: "0 < n" by simp
  have T: "pull_targets cfg img = map (\<lambda>h. Sprintf_slash h img) ?H"
    using False by (simp add: pull_targets_def)
  have nth: "pull_targets cfg img ! i = Sprintf_slash (?H ! i) img" if "i < n" for i
    using that n by (simp add: T)
  have 1: "n \<le> length (pull_targets cfg img)" using n by (simp add: T)
  have 2: "calls w' = calls w @ map (pull_call P) (take n (pull_targets cfg img))"
    using c by (simp add: T take_map)
  have 3: "\<forall>i. Suc i < n \<longrightarrow> snd (pull_result P (?k + i) (pull_targets cfg img ! i)) \<noteq> None"
    using f nth by simp
  from n0 have nz: "n \<noteq> 0" by simp
  from ok nz have ok': "pe' = None \<longrightarrow> pr' = ?H ! (n - 1) \<and>
      snd (pull_result P (?k + (n - 1)) (Sprintf_slash (?H ! (n - 1)) img)) = None"
    by blast
  from bad nz have bad': "pe' \<noteq> None \<longrightarrow> n = length ?H \<and>
      snd (pull_result P (?k + (n - 1)) (Sprintf_slash (?H ! (n - 1)) img)) = pe'"
    by blast
  have "snd (pull_result P (?k + (n - 1)) (Sprintf_slash (?H ! (n - 1)) img)) = pe'"
    using ok' bad' by (cases "pe' = None") blast+
  moreover have "n - 1 < n" using n0 by simp
  ultimately have 4: "snd (pull_result P (?k + (n - 1)) (pull_targets cfg img ! (n - 1))) = pe'"
    using nth [of "n - 1"] by (simp only:)
  have 5: "pe' = None \<longrightarrow> pr' = (if ?H = [] then '''' else ?H ! (n - 1))"
    using ok' False by simp
  have 6: "pe' \<noteq> None \<longrightarrow> n = length (pull_targets cfg img)"
    using bad' by (simp add: T)
  show ?thesis
    by (intro exI [of _ n] conjI) (fact n0 1 2 3 4 5 6)+
qed

lemma tag_login_push_trace:
  assumes "tag_login_push P cfg pr src tgt w = (ex, w')"
  defines "k \<equiv> length (calls w)"
    and "tagc \<equiv> (''docker'', [''tag'', if pr \<noteq> '''' then Sprintf_slash pr src else src, tgt])"
    and "loginc \<equiv> (''docker'', [''login'', Domain' (Registry cfg), ''-u'', Username (Registry cfg),
                        ''-p'', Password (Registry cfg)])"
    and "pushc \<equiv> (''docker'', [''push'', tgt])"
  shows "(\<exists>out e. calls w' = calls w @ [tagc] \<and>
            CombinedOutput P k (fst tagc) (snd tagc) = (out, Some e) \<and> ex = Fatal (TagError e out)) \<or>
         (\<exists>out e. calls w' = calls w @ [tagc, loginc] \<and>
            snd (CombinedOutput P k (fst tagc) (snd tagc)) = None \<and>
            CombinedOutput P (Suc k) (fst loginc) (snd loginc) = (out, Some e) \<and>
            ex = Fatal (LoginError e out)) \<or>
         (\<exists>out e. calls w' = calls w @ [tagc, loginc, pushc] \<and>
            snd (CombinedOutput P k (fst tagc) (snd tagc)) = None \<and>
            snd (CombinedOutput P (Suc k) (fst loginc) (snd loginc)) = None \<and>
            CombinedOutput P (Suc (Suc k)) (fst pushc) (snd pushc) = (out, Some e) \<and>
            ex = Fatal (PushError e out)) \<or>
         (calls w' = calls w @ [tagc, loginc, pushc] \<and>
            snd (CombinedOutput P k (fst tagc) (snd tagc)) = None \<and>
            snd (CombinedOutput P (Suc k) (fst loginc) (snd loginc)) = None \<and>
            snd (CombinedOutput P (Suc (Suc k)) (fst pushc) (snd pushc)) = None \<and>
            ex = Return)"
proof -
  let ?w1 = "println (Tagging (if pr \<noteq> '''' then Sprintf_slash pr src else src) tgt) w"
  obtain o1 e1 w2 where
    x1: "Execute P ''docker'' (snd tagc) ?w1 = ((o1, e1), w2)"
    by (cases "Execute P ''docker'' (snd tagc) ?w1") auto
  from Execute_cases [OF x1]
  have r1: "CombinedOutput P k (fst tagc) (snd tagc) = (o1, e1)"
    and c1: "calls w2 = calls w @ [tagc]"
    by (simp_all add: k_def tagc_def)
  let ?w3 = "println (LoggingIn (Domain' (Registry cfg))) w2"
  obtain o2 e2 w4 where
    x2: "Execute P ''docker'' (snd loginc) ?w3 = ((o2, e2), w4)"
    by (cases "Execute P ''docker'' (snd loginc) ?w3") auto
  from Execute_cases [OF x2]
  have r2: "CombinedOutput P (Suc k) (fst loginc) (snd loginc) = (o2, e2)"
    and c2: "calls w4 = calls w @ [tagc, loginc]"
    by (simp_all add: k_def loginc_def c1)
  let ?w5 = "println (Pushing tgt) w4"
  obtain o3 e3 w6 where
    x3: "Execute P ''docker'' (snd pushc) ?w5 = ((o3, e3), w6)"
    by (cases "Execute P ''docker'' (snd pushc) ?w5") auto
  from Execute_cases [OF x3]
  have r3: "CombinedOutput P (Suc (Suc k)) (fst pushc) (snd pushc) = (o3, e3)"
    and c3: "calls w6 = calls w @ [tagc, loginc, pushc]"
    by (simp_all add: k_def pushc_def c2)
  have unfolded: "tag_login_push P cfg pr src tgt w =
    (case e1 of Some e \<Rightarrow> (Fatal (TagError e o1), w2)
     | None \<Rightarrow> (case e2 of Some e \<Rightarrow> (Fatal (LoginError e o2), w4)
        | None \<Rightarrow> (case e3 of Some e \<Rightarrow> (Fatal (PushError e o3), w6)
            | None \<Rightarrow> (Return, println Synced w6))))"
    using x1 x2 x3
    by (cases e1; cases e2; cases e3)
      (simp_all add: tag_login_push_def tagc_def loginc_def pushc_def Let_def)
  show ?thesis
  proof (cases e1)
    case (Some e)
    with assms(1) unfolded r1 c1 show ?thesis by auto
  next
    case n1: None
    show ?thesis
    proof (cases e2)
      case (Some e)
      with n1 assms(1) unfolded r1 r2 c2 show ?thesis by auto
    next
      case n2: None
      show ?thesis
      proof (cases e3)
        case (Some e)
        with n1 n2 assms(1) unfolded r1 r2 r3 c3 show ?thesis by auto
      next
        case None
        with n1 n2 assms(1) unfolded r1 r2 r3 c3 show ?thesis by auto
      qed
    qed
  qed
qed

lemma main_pull_run:
  assumes "GetConfigPath P w0 = (Inr path, w1)" and "LoadConfig P path w1 = Inr cfg"
  shows "main P [prog, ''pull'', img] w0 =
    (case pull_attempts P cfg img w1 of
       ((pe, pr), wm) \<Rightarrow>
         (case pe of
            Some e \<Rightarrow> (Fatal AllPullsFailed, wm)
          | None \<Rightarrow> tag_login_push P cfg pr img (Sprintf_slash (Domain' (Registry cfg)) img) wm))"
  using assms by (simp add: main_def main_pull_def Let_def split: prod.splits)

lemma pull_local_attempts_eq:
  "pull_local_attempts P cfg img w =
     (case pull_attempts P cfg img w of ((pe, pr), wm) \<Rightarrow> (pe, wm))"
  by (simp add: pull_local_attempts_def pull_attempts_def Let_def
      pull_local_loop_eq [where pr = "[]"] split: prod.splits option.splits)

lemma main_pull_local_run:
  assumes "GetConfigPath P w0 = (Inr path, w1)" and "LoadConfig P path w1 = Inr cfg"
  shows "main P [prog, ''pull-local'', img] w0 =
    (case pull_attempts P cfg img w1 of
       ((pe, pr), wm) \<Rightarrow>
         (case pe of
            Some e \<Rightarrow> (Fatal AllPullsFailed, wm)
          | None \<Rightarrow> (Return, println PulledLocal wm)))"
  using assms
  by (simp add: main_def main_pull_local_def pull_local_attempts_eq Let_def split: prod.splits)

lemma is_sub_simps [simp]:
  "is_sub s (''docker'', a # args) = (a = s)"
  by (simp add: is_sub_def)

lemma tag_login_push_calls:
  assumes "tag_login_push P cfg pr src tgt w = (ex, w')"
  shows "\<exists>cs. calls w' =
           calls w @ (''docker'', [''tag'', if pr \<noteq> '''' then Sprintf_slash pr src else src, tgt]) # cs \<and>
           filter (is_sub ''pull'') cs = []"
  using tag_login_push_trace [OF assms] by auto

text \<open>When every attempt fails, the attempts are all the targets and the error stays.\<close>

lemma pull_attempts_all_fail:
  assumes run: "pull_attempts P cfg img w = ((pe', pr'), w')"
    and start: "calls w = []"
    and fail: "\<forall>i<length (pull_targets cfg img). snd (pull_result P i (pull_targets cfg img ! i)) \<noteq> None"
  shows "pe' \<noteq> None \<and> calls w' = map (pull_call P) (pull_targets cfg img)"
proof -
  from pull_attempts_trace [OF run] start obtain n where
    n: "0 < n" "n \<le> length (pull_targets cfg img)"
    and c: "calls w' = map (pull_call P) (take n (pull_targets cfg img))"
    and l: "snd (pull_result P (n - 1) (pull_targets cfg img ! (n - 1))) = pe'"
    and b: "pe' \<noteq> None \<longrightarrow> n = length (pull_targets cfg img)"
    by auto
  from n have "n - 1 < length (pull_targets cfg img)" by simp
  with fail l have "pe' \<noteq> None" by metis
  with b c show ?thesis by simp
qed

lemma pull_targets_all_fail:
  assumes "DockerRegistries cfg = [] \<longrightarrow> snd (pull_result P 0 img) \<noteq> None"
    and "\<forall>i<length (DockerRegistries cfg).
           snd (pull_result P i (Sprintf_slash (DockerRegistries cfg ! i) img)) \<noteq> None"
  shows "\<forall>i<length (pull_targets cfg img). snd (pull_result P i (pull_targets cfg img ! i)) \<noteq> None"
  using assms by (cases "DockerRegistries cfg = []") (simp_all add: pull_targets_def)

lemma pull_targets_empty: "DockerRegistries cfg = [] \<Longrightarrow> pull_targets cfg img = [img]"
  by (simp add: pull_targets_def)

lemma outcome_pull_calls:
  assumes "i < n" and "n \<le> length ts"
  shows "outcome P (map (pull_call P) (take n ts) @ cs) i = pull_result P i (ts ! i)"
  using assms by (simp add: outcome_def nth_append pull_call_def pull_result_def)

text \<open>The attempts of \<open>pull-local\<close> from a fresh process: only pulls, and none after a success.\<close>

lemma pull_local_attempts_calls:
  assumes att: "pull_local_attempts P cfg img w1 = (pe, wm)" and start: "calls w1 = []"
  shows "(\<forall>c\<in>set (calls wm). is_sub ''pull'' c) \<and>
         (\<forall>i<length (calls wm). snd (outcome P (calls wm) i) = None \<longrightarrow>
            Suc i = length (calls wm) \<and> pe = None)"
proof -
  obtain pr where "pull_attempts P cfg img w1 = ((pe, pr), wm)"
    using att by (cases "pull_attempts P cfg img w1") (auto simp: pull_local_attempts_eq)
  from pull_attempts_trace [OF this] start obtain n where
    n: "0 < n" "n \<le> length (pull_targets cfg img)"
    and c: "calls wm = map (pull_call P) (take n (pull_targets cfg img))"
    and f: "\<forall>i. Suc i < n \<longrightarrow> snd (pull_result P i (pull_targets cfg img ! i)) \<noteq> None"
    and l: "snd (pull_result P (n - 1) (pull_targets cfg img ! (n - 1))) = pe"
    by auto
  have len: "length (calls wm) = n"
    using c n by simp
  have pulls: "\<forall>c\<in>set (calls wm). is_sub ''pull'' c"
    unfolding c by auto
  have stop: "Suc i = length (calls wm) \<and> pe = None"
    if i: "i < length (calls wm)" and ok: "snd (outcome P (calls wm) i) = None" for i
  proof -
    from i len have "i < n" by simp
    from outcome_pull_calls [OF this n(2), of P "[]"] ok c
    have res: "snd (pull_result P i (pull_targets cfg img ! i)) = None" by simp
    with f have "\<not> Suc i < n" by blast
    with \<open>i < n\<close> have "Suc i = n" by simp
    then have "n - 1 = i" by simp
    with l res len \<open>Suc i = n\<close> show ?thesis by simp
  qed
  from pulls stop show ?thesis by blast
qed

lemma main_pull_local_calls:
  assumes run: "main_pull_local P path Args w1 = (ex, w)" and start: "calls w1 = []"
  shows "(\<forall>c\<in>set (calls w). is_sub ''pull'' c) \<and>
         (\<forall>i<length (calls w). snd (outcome P (calls w) i) = None \<longrightarrow>
            Suc i = length (calls w) \<and> ex = Return)"
proof (cases "length Args \<noteq> 3")
  case True
  with run start show ?thesis by (auto simp: main_pull_local_def)
next
  case args: False
  show ?thesis
  proof (cases "LoadConfig P path w1")
    case (Inl err)
    with run start args show ?thesis by (auto simp: main_pull_local_def)
  next
    case (Inr cfg)
    obtain pe wm where att: "pull_local_attempts P cfg (Args ! 2) w1 = (pe, wm)"
      by (cases "pull_local_attempts P cfg (Args ! 2) w1") auto
    with run args Inr have "calls w = calls wm" "pe = None \<longrightarrow> ex = Return"
      by (auto simp: main_pull_local_def split: option.splits)
    with pull_local_attempts_calls [OF att start] show ?thesis by simp
  qed
qed

text \<open>The attempts from a fresh process stop at the first target whose pull succeeds.\<close>

lemma pull_attempts_first_success:
  assumes att: "pull_attempts P cfg img w1 = ((pe, pr), wm)"
    and start: "calls w1 = []"
    and M: "M < length (pull_targets cfg img)"
    and fail: "\<forall>i<M. snd (pull_result P i (pull_targets cfg img ! i)) \<noteq> None"
    and ok: "snd (pull_result P M (pull_targets cfg img ! M)) = None"
  shows "pe = None \<and> calls wm = map (pull_call P) (take (Suc M) (pull_targets cfg img)) \<and>
         pr = (if DockerRegistries cfg = [] then '''' else DockerRegistries cfg ! M)"
proof -
  let ?T = "pull_targets cfg img"
  from pull_attempts_trace [OF att] start obtain n where
    n: "0 < n" "n \<le> length ?T"
    and c: "calls wm = map (pull_call P) (take n ?T)"
    and f: "\<forall>i. Suc i < n \<longrightarrow> snd (pull_result P i (?T ! i)) \<noteq> None"
    and l: "snd (pull_result P (n - 1) (?T ! (n - 1))) = pe"
    and g: "pe = None \<longrightarrow> pr = (if DockerRegistries cfg = [] then '''' else DockerRegistries cfg ! (n - 1))"
    and b: "pe \<noteq> None \<longrightarrow> n = length ?T"
    by auto
  from f ok have upper: "\<not> Suc M < n" by blast
  have lower: "\<not> n - 1 < M"
  proof
    assume less: "n - 1 < M"
    with fail l have "pe \<noteq> None" by metis
    with b have "n = length ?T" by simp
    with less M show False by simp
  qed
  from upper lower n have "n = Suc M" by simp
  with l ok c g show ?thesis by simp
qed

text \<open>
  Among the commands of tag, login and push none is a pull, and one that fails is the last
  and makes the exit fatal with its error and output.
\<close>

lemma tag_login_push_failures:
  assumes "tag_login_push P cfg pr src tgt wm = (ex, w)"
  shows "\<exists>cs. calls w = calls wm @ cs \<and>
    (\<forall>j<length cs. \<not> is_sub ''pull'' (cs ! j) \<and>
       (\<forall>out e. CombinedOutput P (length (calls wm) + j) (fst (cs ! j)) (snd (cs ! j)) = (out, Some e) \<longrightarrow>
          Suc j = length cs \<and>
          (is_sub ''tag'' (cs ! j) \<longrightarrow> ex = Fatal (TagError e out)) \<and>
          (is_sub ''login'' (cs ! j) \<longrightarrow> ex = Fatal (LoginError e out)) \<and>
          (is_sub ''push'' (cs ! j) \<longrightarrow> ex = Fatal (PushError e out))))"
proof -
  define k where "k = length (calls wm)"
  define tagc where
    "tagc = (''docker'', [''tag'', if pr \<noteq> '''' then Sprintf_slash pr src else src, tgt])"
  define loginc where
    "loginc = (''docker'', [''login'', Domain' (Registry cfg), ''-u'', Username (Registry cfg),
                        ''-p'', Password (Registry cfg)])"
  define pushc where "pushc = (''docker'', [''push'', tgt])"
  have sub [simp]: "is_sub s tagc = (s = ''tag'')" "is_sub s loginc = (s = ''login'')"
    "is_sub s pushc = (s = ''push'')" for s
    by (auto simp: tagc_def loginc_def pushc_def)
  from tag_login_push_trace [OF assms, folded tagc_def loginc_def pushc_def k_def]
  show ?thesis
    unfolding k_def [symmetric]
  proof (elim disjE exE conjE, goal_cases)
    case (1 out e)
    then show ?case
      by (intro exI [of _ "[tagc]"]) simp
  next
    case (2 out e)
    then show ?case
      by (intro exI [of _ "[tagc, loginc]"]) (auto simp: All_less_Suc)
  next
    case (3 out e)
    then show ?case
      by (intro exI [of _ "[tagc, loginc, pushc]"]) (auto simp: All_less_Suc)
  next
    case 4
    then show ?case
      by (intro exI [of _ "[tagc, loginc, pushc]"]) (auto simp: All_less_Suc)
  qed
qed

text \<open>What \<open>SaveConfig\<close> has written, \<open>LoadConfig\<close> reads back.\<close>

lemma SaveConfig_LoadConfig:
  assumes save: "SaveConfig P path c w = (None, w')"
    and codec: "\<And>data. Marshal P c = Inr data \<Longrightarrow> Unmarshal P data = Inr c"
    and disk: "\<And>data files. WriteFile P path data (fs w) = (None, files) \<Longrightarrow>
                 ReadFile P path files = Inr data"
  shows "LoadConfig P path w' = Inr c"
proof (cases "Marshal P c")
  case (Inl err)
  with save show ?thesis by (simp add: SaveConfig_def)
next
  case (Inr data)
  obtain err files where wr: "WriteFile P path data (fs w) = (err, files)"
    by (cases "WriteFile P path data (fs w)") auto
  with save Inr have "err = None" "fs w' = files"
    by (auto simp: SaveConfig_def)
  with wr disk have "ReadFile P path (fs w') = Inr data" by simp
  with codec [OF Inr] show ?thesis by (simp add: LoadConfig_def)
qed

section \<open>The decoder of the platform and the commands\<close>

lemma platform_args_Unmarshal [simp]:
  "platform_args (P\<lparr>Unmarshal := u\<rparr>) command args = platform_args P command args"
  by (simp add: platform_args_def)

lemma Execute_Unmarshal [simp]:
  "Execute (P\<lparr>Unmarshal := u\<rparr>) command args w = Execute P command args w"
  by (simp add: Execute_def)

lemma pull_loop_Unmarshal [simp]:
  "pull_loop (P\<lparr>Unmarshal := u\<rparr>) img hosts s w = pull_loop P img hosts s w"
proof (induction hosts arbitrary: s w)
  case Nil
  then show ?case by (cases s) simp
next
  case (Cons h hs)
  then show ?case
    by (cases s) (simp add: Let_def split: prod.splits option.splits)
qed

lemma pull_local_loop_Unmarshal [simp]:
  "pull_local_loop (P\<lparr>Unmarshal := u\<rparr>) img hosts pe w = pull_local_loop P img hosts pe w"
  by (simp add: pull_local_loop_eq [where pr = "[]"])

lemma GetConfigPath_Unmarshal [simp]:
  "GetConfigPath (P\<lparr>Unmarshal := u\<rparr>) w = GetConfigPath P w"
  by (simp add: GetConfigPath_def Let_def split: sum.splits)


lemma pull_attempts_Project [simp]:
  "pull_attempts (P\<lparr>Unmarshal := u\<rparr>) (c\<lparr>Registry := (Registry c)\<lparr>Project := x\<rparr>\<rparr>) img w =
     pull_attempts P c img w"
  by (simp add: pull_attempts_def)

lemma pull_local_attempts_Project [simp]:
  "pull_local_attempts (P\<lparr>Unmarshal := u\<rparr>) (c\<lparr>Registry := (Registry c)\<lparr>Project := x\<rparr>\<rparr>) img w =
     pull_local_attempts P c img w"
  by (simp add: pull_local_attempts_def)

lemma tag_login_push_Project [simp]:
  "tag_login_push (P\<lparr>Unmarshal := u\<rparr>) (c\<lparr>Registry := (Registry c)\<lparr>Project := x\<rparr>\<rparr>) pr src tgt w =
     tag_login_push P c pr src tgt w"
  by (simp add: tag_login_push_def Let_def cong: prod.case_cong option.case_cong)



text \<open>
  \<open>Configure\<close> hands to \<open>SaveConfig\<close> the record made of the three trimmed lines that
  the prompts read, an empty project and the three fixed hosts.
\<close>

lemma Configure_unfold:
  "Configure P configFile w =
     SaveConfig P configFile
       \<lparr>Registry =
          \<lparr>Domain' = TrimSpace P (fst (ReadString (stdin w) [])),
           Username = TrimSpace P (fst (ReadString (snd (ReadString (stdin w) [])) [])),
           Password =
             TrimSpace P
               (fst (ReadString (snd (ReadString (snd (ReadString (stdin w) [])) [])) [])),
           Project = ''''\<rparr>,
        DockerRegistries =
          [''docker.m.daocloud.io'', ''quay.m.daocloud.io'', ''k8s.m.daocloud.io'']\<rparr>
       (w\<lparr>stdout := stdout w @ [PromptDomain, PromptUsername, PromptPassword],
          stdin := snd (ReadString (snd (ReadString (snd (ReadString (stdin w) [])) [])) [])\<rparr>)"
  by (simp add: Configure_def Prompt_def println_def Config_zero_def Let_def split: prod.splits)

section \<open>Runs on the small platform\<close>

lemma demo_GetConfigPath:
  "GetConfigPath (demo_platform g r) (demo_world c i) =
     (Inr ''/home/u/.config/docker-mirror/config.yaml'', demo_world c i)"
  by (simp add: GetConfigPath_def demo_platform_def demo_world_def)

lemma demo_calls: "calls (demo_world c i) = []"
  by (simp add: demo_world_def)

lemma demo_LoadConfig_2:
  "LoadConfig (demo_platform g r) ''/home/u/.config/docker-mirror/config.yaml''
     (demo_world (demo_config [''a.io'', ''b.io'']) i) = Inr (demo_config [''a.io'', ''b.io''])"
  by (simp add: LoadConfig_def demo_platform_def demo_world_def demo_Marshal_def
      demo_Unmarshal_def demo_config_def)

lemma demo_LoadConfig_0:
  "LoadConfig (demo_platform g r) ''/home/u/.config/docker-mirror/config.yaml''
     (demo_world (demo_config []) i) = Inr (demo_config [])"
  by (simp add: LoadConfig_def demo_platform_def demo_world_def demo_Marshal_def
      demo_Unmarshal_def demo_config_def)

lemma demo_LoadConfig_daocloud:
  "LoadConfig (demo_platform g r) ''/home/u/.config/docker-mirror/config.yaml''
     (demo_world (demo_config [''docker.m.daocloud.io'']) i) =
     Inr (demo_config [''docker.m.daocloud.io''])"
  by (simp add: LoadConfig_def demo_platform_def demo_world_def demo_Marshal_def
      demo_Unmarshal_def demo_config_def)

lemma demo_codec:
  "demo_Unmarshal (case demo_Marshal (demo_config [''a.io'', ''b.io'']) of Inr data \<Rightarrow> data | Inl err \<Rightarrow> []) =
     Inr (demo_config [''a.io'', ''b.io''])"
  by (simp add: demo_Marshal_def demo_Unmarshal_def demo_config_def)

text \<open>A read of no bytes ends the line being read, and the next prompt reads on.\<close>

lemma ReadString_end_of_input:
  "ReadString ['''', ''bob'' @ [CHR 0x0A], ''pw'' @ [CHR 0x0A]] [] =
     ('''', [''bob'' @ [CHR 0x0A], ''pw'' @ [CHR 0x0A]])"
  "ReadString [''bo'', ''b'' @ [CHR 0x0A] @ ''pw'', ''x''] [] = (''bob'' @ [CHR 0x0A], [''x''])"
  "ReadString [''bo'', '''', ''b'' @ [CHR 0x0A]] [] = (''bo'', [''b'' @ [CHR 0x0A]])"
  by simp_all

section \<open>The claims\<close>

text \<open>
  C1. The claim is that for an image reference with no slash each pull uses the host, a
  slash, \<open>library/\<close> and the name. The code computes the slice \<open>part\<close> with
  \<open>library\<close> in front and never reads it: for \<open>redis:7\<close> and the mirror host
  \<open>docker.m.daocloud.io\<close> both \<open>pull\<close> and \<open>pull-local\<close> run the pull of
  \<open>docker.m.daocloud.io/redis:7\<close>, and \<open>pull\<close> tags and pushes
  \<open>registry.example.com/redis:7\<close>.
\<close>

theorem bare_name_pulled_without_library:
  "Split ''redis:7'' CHR ''/'' = [''redis:7''] \<and>
   calls (snd (main (demo_platform ''linux'' all_succeed)
      [''docker-mirror'', ''pull'', ''redis:7'']
      (demo_world (demo_config [''docker.m.daocloud.io'']) []))) =
     [(''docker'', [''pull'', ''docker.m.daocloud.io/redis:7'']),
      (''docker'', [''tag'', ''docker.m.daocloud.io/redis:7'', ''registry.example.com/redis:7'']),
      (''docker'', [''login'', ''registry.example.com'', ''-u'', ''alice'', ''-p'', ''secret'']),
      (''docker'', [''push'', ''registry.example.com/redis:7''])] \<and>
   calls (snd (main (demo_platform ''linux'' all_succeed)
      [''docker-mirror'', ''pull-local'', ''redis:7'']
      (demo_world (demo_config [''docker.m.daocloud.io'']) []))) =
     [(''docker'', [''pull'', ''docker.m.daocloud.io/redis:7''])]"
proof -
  have "calls (snd (main (demo_platform ''linux'' all_succeed)
      [''docker-mirror'', ''pull'', ''redis:7'']
      (demo_world (demo_config [''docker.m.daocloud.io'']) []))) =
     [(''docker'', [''pull'', ''docker.m.daocloud.io/redis:7'']),
      (''docker'', [''tag'', ''docker.m.daocloud.io/redis:7'', ''registry.example.com/redis:7'']),
      (''docker'', [''login'', ''registry.example.com'', ''-u'', ''alice'', ''-p'', ''secret'']),
      (''docker'', [''push'', ''registry.example.com/redis:7''])]"
    by (simp add: main_def main_pull_def GetConfigPath_def LoadConfig_def pull_attempts_def
        tag_login_push_def Execute_def Let_def demo_config_def demo_platform_def
        all_succeed_def demo_world_def println_def platform_args_def Sprintf_slash_def
        demo_Marshal_def demo_Unmarshal_def)
  moreover have "calls (snd (main (demo_platform ''linux'' all_succeed)
      [''docker-mirror'', ''pull-local'', ''redis:7'']
      (demo_world (demo_config [''docker.m.daocloud.io'']) []))) =
     [(''docker'', [''pull'', ''docker.m.daocloud.io/redis:7''])]"
    by (simp add: main_def main_pull_local_def GetConfigPath_def LoadConfig_def
        pull_local_attempts_def Execute_def Let_def demo_config_def demo_platform_def
        all_succeed_def demo_world_def println_def platform_args_def Sprintf_slash_def
        demo_Marshal_def demo_Unmarshal_def)
  ultimately show ?thesis
    by simp
qed

text \<open>
  C2. When the pulls at the first \<open>M\<close> hosts of the mirror list fail and the pull at the
  next host succeeds, the process runs exactly \<open>M + 1\<close> pulls, at those hosts in order,
  and the command after them is the tag of a source image to the target. The name of the
  successful host is the beginning of that source image: the source is the host, a slash
  and the image whenever the name of the host is not empty, and so for every mirror list
  when the engine refuses a reference that starts with a slash.
\<close>

theorem pull_stops_at_first_success:
  assumes start: "calls w0 = []"
    and path: "GetConfigPath P w0 = (Inr path, w1)"
    and cfg: "LoadConfig P path w1 = Inr cfg"
    and M: "M < length (DockerRegistries cfg)"
    and fail: "\<forall>i<M. snd (pull_result P i (Sprintf_slash (DockerRegistries cfg ! i) img)) \<noteq> None"
    and ok: "snd (pull_result P M (Sprintf_slash (DockerRegistries cfg ! M) img)) = None"
    and run: "main P [prog, ''pull'', img] w0 = (ex, w)"
  shows "take (Suc M) (calls w) =
           map (\<lambda>h. pull_call P (Sprintf_slash h img)) (take (Suc M) (DockerRegistries cfg)) \<and>
         length (filter (is_sub ''pull'') (calls w)) = Suc M \<and>
         Suc M < length (calls w) \<and>
         (\<exists>src. calls w ! Suc M =
                  (''docker'', [''tag'', src, Sprintf_slash (Domain' (Registry cfg)) img]) \<and>
                (\<exists>rest. src = DockerRegistries cfg ! M @ rest) \<and>
                (DockerRegistries cfg ! M \<noteq> '''' \<longrightarrow>
                   src = Sprintf_slash (DockerRegistries cfg ! M) img) \<and>
                ((\<forall>k t. snd (pull_result P k (CHR ''/'' # t)) \<noteq> None) \<longrightarrow>
                   src = Sprintf_slash (DockerRegistries cfg ! M) img))"
proof -
  let ?H = "DockerRegistries cfg"
  let ?pulls = "map (\<lambda>h. pull_call P (Sprintf_slash h img)) (take (Suc M) ?H)"
  let ?tag = "(''docker'',
            [''tag'', if ?H ! M \<noteq> '''' then Sprintf_slash (?H ! M) img else img,
             Sprintf_slash (Domain' (Registry cfg)) img])"
  from M have ne: "?H \<noteq> []" by auto
  then have T: "pull_targets cfg img = map (\<lambda>h. Sprintf_slash h img) ?H"
    by (simp add: pull_targets_def)
  obtain pe pr wm where att: "pull_attempts P cfg img w1 = ((pe, pr), wm)"
    by (cases "pull_attempts P cfg img w1") auto
  from GetConfigPath_frame [OF path] start have w1: "calls w1 = []" by simp
  from M have M': "M < length (pull_targets cfg img)" by (simp add: T)
  from fail M have fail': "\<forall>i<M. snd (pull_result P i (pull_targets cfg img ! i)) \<noteq> None"
    by (simp add: T)
  from ok M have ok': "snd (pull_result P M (pull_targets cfg img ! M)) = None"
    by (simp add: T)
  from pull_attempts_first_success [OF att w1 M' fail' ok'] ne
  have pe: "pe = None" and c: "calls wm = ?pulls" and pr: "pr = ?H ! M"
    by (simp_all add: T take_map)
  from run att pe have
    "tag_login_push P cfg pr img (Sprintf_slash (Domain' (Registry cfg)) img) wm = (ex, w)"
    by (simp add: main_pull_run [OF path cfg])
  from tag_login_push_calls [OF this] obtain cs where
    cw: "calls w = ?pulls @ ?tag # cs" and np: "filter (is_sub ''pull'') cs = []"
    unfolding c pr by blast
  have len: "length ?pulls = Suc M"
    using M by simp
  have all: "filter (is_sub ''pull'') ?pulls = ?pulls"
    by (simp add: filter_map o_def)
  have 1: "take (Suc M) (calls w) = ?pulls"
    unfolding cw using len by simp
  have 2: "length (filter (is_sub ''pull'') (calls w)) = Suc M"
    unfolding cw using len np all by simp
  have 3: "Suc M < length (calls w)"
    unfolding cw using len by simp
  have 4: "calls w ! Suc M = ?tag"
    unfolding cw using len by (simp add: nth_append)
  let ?src = "if ?H ! M \<noteq> '''' then Sprintf_slash (?H ! M) img else img"
  have 5: "\<exists>rest. ?src = ?H ! M @ rest"
    by (simp add: Sprintf_slash_def)
  have 6: "?src = Sprintf_slash (?H ! M) img"
    if strict: "\<forall>k t. snd (pull_result P k (CHR ''/'' # t)) \<noteq> None"
  proof (cases "?H ! M = ''''")
    case True
    with ok have "snd (pull_result P M (CHR ''/'' # img)) = None"
      by (simp add: Sprintf_slash_def)
    with strict show ?thesis by blast
  next
    case False
    then show ?thesis by simp
  qed
  have 7: "?H ! M \<noteq> '''' \<longrightarrow> ?src = Sprintf_slash (?H ! M) img"
    by simp
  from 4 5 6 7 have "calls w ! Suc M =
                  (''docker'', [''tag'', ?src, Sprintf_slash (Domain' (Registry cfg)) img]) \<and>
                (\<exists>rest. ?src = ?H ! M @ rest) \<and>
                (?H ! M \<noteq> '''' \<longrightarrow> ?src = Sprintf_slash (?H ! M) img) \<and>
                ((\<forall>k t. snd (pull_result P k (CHR ''/'' # t)) \<noteq> None) \<longrightarrow>
                   ?src = Sprintf_slash (?H ! M) img)"
    by blast
  then have "\<exists>src. calls w ! Suc M =
                  (''docker'', [''tag'', src, Sprintf_slash (Domain' (Registry cfg)) img]) \<and>
                (\<exists>rest. src = ?H ! M @ rest) \<and>
                (?H ! M \<noteq> '''' \<longrightarrow> src = Sprintf_slash (?H ! M) img) \<and>
                ((\<forall>k t. snd (pull_result P k (CHR ''/'' # t)) \<noteq> None) \<longrightarrow>
                   src = Sprintf_slash (?H ! M) img)"
    by (rule exI [where x = ?src])
  with 1 2 3 show ?thesis
    by (intro conjI) assumption+
qed

theorem pull_stops_at_first_success_witness:
  "take 2 (calls (snd (main (demo_platform ''linux'' (strict_engine 1))
      [''docker-mirror'', ''pull'', ''redis:7''] (demo_world (demo_config [''a.io'', ''b.io'']) [])))) =
     [(''docker'', [''pull'', ''a.io/redis:7'']), (''docker'', [''pull'', ''b.io/redis:7''])] \<and>
   calls (snd (main (demo_platform ''linux'' (strict_engine 1))
      [''docker-mirror'', ''pull'', ''redis:7''] (demo_world (demo_config [''a.io'', ''b.io'']) []))) ! 2 =
     (''docker'', [''tag'', ''b.io/redis:7'', ''registry.example.com/redis:7''])"
proof -
  let ?P = "demo_platform ''linux'' (strict_engine 1)"
  let ?c = "demo_config [''a.io'', ''b.io'']"
  let ?w0 = "demo_world ?c []"
  let ?m = "main ?P [''docker-mirror'', ''pull'', ''redis:7''] ?w0"
  have start: "calls ?w0 = []"
    by (rule demo_calls)
  have path: "GetConfigPath ?P ?w0 = (Inr ''/home/u/.config/docker-mirror/config.yaml'', ?w0)"
    by (rule demo_GetConfigPath)
  have cfg: "LoadConfig ?P ''/home/u/.config/docker-mirror/config.yaml'' ?w0 = Inr ?c"
    by (rule demo_LoadConfig_2)
  have M: "1 < length (DockerRegistries ?c)"
    by (simp add: demo_config_def)
  have fail: "\<forall>i<1. snd (pull_result ?P i (Sprintf_slash (DockerRegistries ?c ! i) ''redis:7'')) \<noteq> None"
    by (simp add: pull_result_def demo_platform_def strict_engine_def)
  have ok: "snd (pull_result ?P 1 (Sprintf_slash (DockerRegistries ?c ! 1) ''redis:7'')) = None"
    by (simp add: pull_result_def demo_platform_def strict_engine_def demo_config_def
        platform_args_def Sprintf_slash_def)
  have strict: "\<forall>k t. snd (pull_result ?P k (CHR ''/'' # t)) \<noteq> None"
    by (simp add: pull_result_def demo_platform_def strict_engine_def platform_args_def)
  have run: "?m = (fst ?m, snd ?m)"
    by simp
  note inst = pull_stops_at_first_success [OF start path cfg M fail ok run]
  note pulls = inst [THEN conjunct1]
  from inst [THEN conjunct2, THEN conjunct2, THEN conjunct2] obtain src where
    t: "calls (snd ?m) ! Suc 1 =
      (''docker'', [''tag'', src, Sprintf_slash (Domain' (Registry ?c)) ''redis:7''])"
    and s: "(\<forall>k t. snd (pull_result ?P k (CHR ''/'' # t)) \<noteq> None) \<longrightarrow>
      src = Sprintf_slash (DockerRegistries ?c ! 1) ''redis:7''"
    by auto
  from s strict have "src = Sprintf_slash (DockerRegistries ?c ! 1) ''redis:7''"
    by (rule mp)
  with t have tag: "calls (snd ?m) ! Suc 1 =
      (''docker'', [''tag'', Sprintf_slash (DockerRegistries ?c ! 1) ''redis:7'',
         Sprintf_slash (Domain' (Registry ?c)) ''redis:7''])"
    by simp
  from pulls tag show ?thesis
    by (simp add: demo_config_def pull_call_def platform_args_def demo_platform_def
        Sprintf_slash_def numeral_2_eq_2)
qed

text \<open>
  C3. In an invocation of \<open>pull\<close> in which every pull attempt fails (the attempt at each
  mirror host, or the one bare attempt when the mirror list is empty), the process ends
  fatally with a status that is not zero, the commands run are exactly the pulls of all
  the targets, and none of them is a tag, login or push.
\<close>

theorem pull_all_fail_fatal:
  assumes start: "calls w0 = []"
    and path: "GetConfigPath P w0 = (Inr path, w1)"
    and cfg: "LoadConfig P path w1 = Inr cfg"
    and bare: "DockerRegistries cfg = [] \<longrightarrow> snd (pull_result P 0 img) \<noteq> None"
    and mirrors: "\<forall>i<length (DockerRegistries cfg).
           snd (pull_result P i (Sprintf_slash (DockerRegistries cfg ! i) img)) \<noteq> None"
    and run: "main P [prog, ''pull'', img] w0 = (ex, w)"
  shows "ex = Fatal AllPullsFailed \<and> exit_status ex \<noteq> 0 \<and>
         calls w = map (pull_call P) (pull_targets cfg img) \<and>
         (\<forall>c\<in>set (calls w). \<not> is_sub ''tag'' c \<and> \<not> is_sub ''login'' c \<and> \<not> is_sub ''push'' c)"
proof -
  obtain pe pr wm where att: "pull_attempts P cfg img w1 = ((pe, pr), wm)"
    by (cases "pull_attempts P cfg img w1") auto
  from GetConfigPath_frame [OF path] start have "calls w1 = []" by simp
  from pull_attempts_all_fail [OF att this pull_targets_all_fail [OF bare mirrors]]
  have pe: "pe \<noteq> None" and c: "calls wm = map (pull_call P) (pull_targets cfg img)"
    by simp_all
  from run pe att have "ex = Fatal AllPullsFailed" "w = wm"
    by (auto simp: main_pull_run [OF path cfg])
  with c show ?thesis by auto
qed

theorem pull_all_fail_fatal_witness:
  "fst (main (demo_platform ''linux'' (first_fail 2)) [''docker-mirror'', ''pull'', ''redis:7'']
          (demo_world (demo_config [''a.io'', ''b.io'']) [])) = Fatal AllPullsFailed \<and>
   calls (snd (main (demo_platform ''linux'' (first_fail 2)) [''docker-mirror'', ''pull'', ''redis:7'']
          (demo_world (demo_config [''a.io'', ''b.io'']) []))) =
     [(''docker'', [''pull'', ''a.io/redis:7'']), (''docker'', [''pull'', ''b.io/redis:7''])]"
proof -
  let ?P = "demo_platform ''linux'' (first_fail 2)"
  let ?c = "demo_config [''a.io'', ''b.io'']"
  have bare: "DockerRegistries ?c = [] \<longrightarrow> snd (pull_result ?P 0 ''redis:7'') \<noteq> None"
    by (simp add: demo_config_def)
  have mirrors: "\<forall>i<length (DockerRegistries ?c).
           snd (pull_result ?P i (Sprintf_slash (DockerRegistries ?c ! i) ''redis:7'')) \<noteq> None"
    by (simp add: demo_config_def pull_result_def demo_platform_def first_fail_def)
  from pull_all_fail_fatal [OF demo_calls demo_GetConfigPath demo_LoadConfig_2 bare mirrors
      prod.collapse [symmetric]]
  show ?thesis
    by (simp add: pull_targets_def pull_call_def platform_args_def demo_config_def
        demo_platform_def Sprintf_slash_def)
qed

text \<open>
  C4. In an invocation of \<open>pull\<close> with a loaded configuration, a tag, login or push
  command that fails is the last command run, and the process ends fatally with the
  error and the captured output of that command. A pull that fails while a mirror host
  is left is followed by the pull at the next host.
\<close>

theorem pull_failure_handling:
  assumes start: "calls w0 = []"
    and path: "GetConfigPath P w0 = (Inr path, w1)"
    and cfg: "LoadConfig P path w1 = Inr cfg"
    and run: "main P [prog, ''pull'', img] w0 = (ex, w)"
  shows "\<forall>i<length (calls w). \<forall>out e. outcome P (calls w) i = (out, Some e) \<longrightarrow>
      (is_sub ''tag'' (calls w ! i) \<longrightarrow> Suc i = length (calls w) \<and> ex = Fatal (TagError e out)) \<and>
      (is_sub ''login'' (calls w ! i) \<longrightarrow> Suc i = length (calls w) \<and> ex = Fatal (LoginError e out)) \<and>
      (is_sub ''push'' (calls w ! i) \<longrightarrow> Suc i = length (calls w) \<and> ex = Fatal (PushError e out)) \<and>
      (is_sub ''pull'' (calls w ! i) \<and> Suc i < length (DockerRegistries cfg) \<longrightarrow>
         Suc i < length (calls w) \<and>
         calls w ! Suc i = pull_call P (Sprintf_slash (DockerRegistries cfg ! Suc i) img))"
proof (intro allI impI)
  fix i out e
  assume i: "i < length (calls w)" and res: "outcome P (calls w) i = (out, Some e)"
  let ?T = "pull_targets cfg img"
  let ?H = "DockerRegistries cfg"
  obtain pe pr wm where att: "pull_attempts P cfg img w1 = ((pe, pr), wm)"
    by (cases "pull_attempts P cfg img w1") auto
  from GetConfigPath_frame [OF path] start have w1: "calls w1 = []" by simp
  from pull_attempts_trace [OF att] w1 obtain n where
    n: "0 < n" "n \<le> length ?T"
    and c: "calls wm = map (pull_call P) (take n ?T)"
    and l: "snd (pull_result P (n - 1) (?T ! (n - 1))) = pe"
    and b: "pe \<noteq> None \<longrightarrow> n = length ?T"
    by auto
  have lenm: "length (calls wm) = n"
    using c n by simp
  from run att have rest: "(case pe of
            Some e \<Rightarrow> (Fatal AllPullsFailed, wm)
          | None \<Rightarrow> tag_login_push P cfg pr img (Sprintf_slash (Domain' (Registry cfg)) img) wm) = (ex, w)"
    by (simp add: main_pull_run [OF path cfg])
  obtain cs where cw: "calls w = map (pull_call P) (take n ?T) @ cs"
    and late: "\<forall>j<length cs. \<not> is_sub ''pull'' (cs ! j) \<and>
       (\<forall>out e. CombinedOutput P (n + j) (fst (cs ! j)) (snd (cs ! j)) = (out, Some e) \<longrightarrow>
          Suc j = length cs \<and>
          (is_sub ''tag'' (cs ! j) \<longrightarrow> ex = Fatal (TagError e out)) \<and>
          (is_sub ''login'' (cs ! j) \<longrightarrow> ex = Fatal (LoginError e out)) \<and>
          (is_sub ''push'' (cs ! j) \<longrightarrow> ex = Fatal (PushError e out)))"
  proof (cases pe)
    case (Some e')
    with rest have "w = wm" by simp
    with c that [of "[]"] show ?thesis by simp
  next
    case None
    with rest have "tag_login_push P cfg pr img (Sprintf_slash (Domain' (Registry cfg)) img) wm = (ex, w)"
      by simp
    from tag_login_push_failures [OF this] obtain cs0 where
      body: "calls w = calls wm @ cs0 \<and>
        (\<forall>j<length cs0. \<not> is_sub ''pull'' (cs0 ! j) \<and>
          (\<forall>out e. CombinedOutput P (length (calls wm) + j) (fst (cs0 ! j)) (snd (cs0 ! j)) =
              (out, Some e) \<longrightarrow>
            Suc j = length cs0 \<and>
            (is_sub ''tag'' (cs0 ! j) \<longrightarrow> ex = Fatal (TagError e out)) \<and>
            (is_sub ''login'' (cs0 ! j) \<longrightarrow> ex = Fatal (LoginError e out)) \<and>
            (is_sub ''push'' (cs0 ! j) \<longrightarrow> ex = Fatal (PushError e out))))" ..
    from body have "calls w = calls wm @ cs0"
      by (rule conjunct1)
    then have "calls w = map (pull_call P) (take n ?T) @ cs0"
      by (simp only: c)
    moreover from body [unfolded lenm] have "\<forall>j<length cs0. \<not> is_sub ''pull'' (cs0 ! j) \<and>
          (\<forall>out e. CombinedOutput P (n + j) (fst (cs0 ! j)) (snd (cs0 ! j)) = (out, Some e) \<longrightarrow>
            Suc j = length cs0 \<and>
            (is_sub ''tag'' (cs0 ! j) \<longrightarrow> ex = Fatal (TagError e out)) \<and>
            (is_sub ''login'' (cs0 ! j) \<longrightarrow> ex = Fatal (LoginError e out)) \<and>
            (is_sub ''push'' (cs0 ! j) \<longrightarrow> ex = Fatal (PushError e out)))"
      by (rule conjunct2)
    ultimately show ?thesis
      by (rule that)
  qed
  show "(is_sub ''tag'' (calls w ! i) \<longrightarrow> Suc i = length (calls w) \<and> ex = Fatal (TagError e out)) \<and>
      (is_sub ''login'' (calls w ! i) \<longrightarrow> Suc i = length (calls w) \<and> ex = Fatal (LoginError e out)) \<and>
      (is_sub ''push'' (calls w ! i) \<longrightarrow> Suc i = length (calls w) \<and> ex = Fatal (PushError e out)) \<and>
      (is_sub ''pull'' (calls w ! i) \<and> Suc i < length ?H \<longrightarrow>
         Suc i < length (calls w) \<and>
         calls w ! Suc i = pull_call P (Sprintf_slash (?H ! Suc i) img))"
  proof (cases "i < n")
    case True
    then have nth: "calls w ! i = pull_call P (?T ! i)"
      using n by (simp add: cw nth_append)
    from outcome_pull_calls [OF True n(2), of P cs] res cw
    have pres: "pull_result P i (?T ! i) = (out, Some e)" by simp
    have next_pull: "Suc i < length (calls w) \<and>
         calls w ! Suc i = pull_call P (Sprintf_slash (?H ! Suc i) img)"
      if more: "Suc i < length ?H"
    proof -
      from more have T: "?T = map (\<lambda>h. Sprintf_slash h img) ?H"
        by (auto simp: pull_targets_def)
      have "Suc i < n"
      proof (rule ccontr)
        assume "\<not> Suc i < n"
        with True have "n - 1 = i" by simp
        with l pres have "pe \<noteq> None" by auto
        with b have "n = length ?T" by simp
        with \<open>n - 1 = i\<close> more T n(1) show False by simp
      qed
      with n more show ?thesis
        by (simp add: cw nth_append T)
    qed
    from nth next_pull show ?thesis by simp
  next
    case False
    define j where "j = i - n"
    from False i cw n have j: "j < length cs" and ij: "i = n + j"
      by (simp_all add: j_def)
    from False n have nth: "calls w ! i = cs ! j"
      by (simp add: cw nth_append j_def)
    from res nth ij have "CombinedOutput P (n + j) (fst (cs ! j)) (snd (cs ! j)) = (out, Some e)"
      by (simp add: outcome_def)
    with late j have "\<not> is_sub ''pull'' (cs ! j)" "Suc j = length cs"
      "is_sub ''tag'' (cs ! j) \<longrightarrow> ex = Fatal (TagError e out)"
      "is_sub ''login'' (cs ! j) \<longrightarrow> ex = Fatal (LoginError e out)"
      "is_sub ''push'' (cs ! j) \<longrightarrow> ex = Fatal (PushError e out)"
      by blast+
    moreover from \<open>Suc j = length cs\<close> ij n have "Suc i = length (calls w)"
      by (simp add: cw)
    ultimately show ?thesis
      using nth by simp
  qed
qed

theorem pull_failure_handling_witness:
  "calls (snd (main (demo_platform ''linux'' (fail_at [0, 2]))
      [''docker-mirror'', ''pull'', ''redis:7''] (demo_world (demo_config [''a.io'', ''b.io'']) []))) =
     [(''docker'', [''pull'', ''a.io/redis:7'']), (''docker'', [''pull'', ''b.io/redis:7'']),
      (''docker'', [''tag'', ''b.io/redis:7'', ''registry.example.com/redis:7''])] \<and>
   fst (main (demo_platform ''linux'' (fail_at [0, 2]))
      [''docker-mirror'', ''pull'', ''redis:7''] (demo_world (demo_config [''a.io'', ''b.io'']) [])) =
     Fatal (TagError ''exit status 1'' ''denied'') \<and>
   pull_call (demo_platform ''linux'' (fail_at [0, 2])) (Sprintf_slash ''b.io'' ''redis:7'') =
     (''docker'', [''pull'', ''b.io/redis:7''])"
proof -
  let ?P = "demo_platform ''linux'' (fail_at [0, 2])"
  let ?c = "demo_config [''a.io'', ''b.io'']"
  let ?w0 = "demo_world ?c []"
  let ?m = "main ?P [''docker-mirror'', ''pull'', ''redis:7''] ?w0"
  have start: "calls ?w0 = []"
    by (rule demo_calls)
  have path: "GetConfigPath ?P ?w0 = (Inr ''/home/u/.config/docker-mirror/config.yaml'', ?w0)"
    by (rule demo_GetConfigPath)
  have cfg: "LoadConfig ?P ''/home/u/.config/docker-mirror/config.yaml'' ?w0 = Inr ?c"
    by (rule demo_LoadConfig_2)
  have run: "?m = (fst ?m, snd ?m)"
    by simp
  have cs: "calls (snd ?m) =
     [(''docker'', [''pull'', ''a.io/redis:7'']), (''docker'', [''pull'', ''b.io/redis:7'']),
      (''docker'', [''tag'', ''b.io/redis:7'', ''registry.example.com/redis:7''])]"
    by (subst main_pull_run [OF demo_GetConfigPath demo_LoadConfig_2])
      (simp add: pull_attempts_def tag_login_push_def Execute_def Let_def demo_config_def
        demo_platform_def fail_at_def demo_world_def println_def platform_args_def
        Sprintf_slash_def)
  have hosts: "DockerRegistries ?c = [''a.io'', ''b.io'']"
    by (simp add: demo_config_def)
  have len0: "0 < length (calls (snd ?m))" and len2: "2 < length (calls (snd ?m))"
    unfolding cs by simp_all
  have res0: "outcome ?P (calls (snd ?m)) 0 = (''denied'', Some ''exit status 1'')"
    unfolding cs by (simp add: outcome_def demo_platform_def fail_at_def)
  have res2: "outcome ?P (calls (snd ?m)) 2 = (''denied'', Some ''exit status 1'')"
    unfolding cs by (simp add: outcome_def demo_platform_def fail_at_def)
  have tag2: "is_sub ''tag'' (calls (snd ?m) ! 2)"
    unfolding cs by simp
  have pull0: "is_sub ''pull'' (calls (snd ?m) ! 0) \<and> Suc 0 < length (DockerRegistries ?c)"
    unfolding cs hosts by simp
  from pull_failure_handling [OF start path cfg run, rule_format, OF len2 res2] tag2
  have fatal: "fst ?m = Fatal (TagError ''exit status 1'' ''denied'')"
    by blast
  from pull_failure_handling [OF start path cfg run, rule_format, OF len0 res0] pull0
  have "calls (snd ?m) ! Suc 0 = pull_call ?P (Sprintf_slash (DockerRegistries ?c ! Suc 0) ''redis:7'')"
    by blast
  then have "pull_call ?P (Sprintf_slash ''b.io'' ''redis:7'') = (''docker'', [''pull'', ''b.io/redis:7''])"
    unfolding cs hosts by simp
  with cs fatal show ?thesis
    by (simp only: simp_thms)
qed

text \<open>
  C5. Whatever the image reference and whatever the outcome of each pull attempt, every
  command that the \<open>pull-local\<close> subcommand runs is a pull of the container engine, never
  a tag, login or push; and a pull that succeeds is the last command run, after which the
  process returns normally.
\<close>

theorem pull_local_runs_only_pulls:
  assumes start: "calls w0 = []"
    and run: "main P (prog # ''pull-local'' # rest) w0 = (ex, w)"
  shows "(\<forall>c\<in>set (calls w).
            is_sub ''pull'' c \<and> \<not> is_sub ''tag'' c \<and> \<not> is_sub ''login'' c \<and> \<not> is_sub ''push'' c) \<and>
         (\<forall>i<length (calls w). snd (outcome P (calls w) i) = None \<longrightarrow>
            Suc i = length (calls w) \<and> ex = Return)"
proof -
  obtain r w1 where path: "GetConfigPath P w0 = (r, w1)"
    by (cases "GetConfigPath P w0") auto
  from GetConfigPath_frame [OF path] start have w1: "calls w1 = []" by simp
  have core: "(\<forall>c\<in>set (calls w). is_sub ''pull'' c) \<and>
         (\<forall>i<length (calls w). snd (outcome P (calls w) i) = None \<longrightarrow>
            Suc i = length (calls w) \<and> ex = Return)"
  proof (cases r)
    case (Inl f)
    with run path w1 show ?thesis by (auto simp: main_def)
  next
    case (Inr configPath)
    with run path have "main_pull_local P configPath (prog # ''pull-local'' # rest) w1 = (ex, w)"
      by (simp add: main_def)
    from main_pull_local_calls [OF this w1] show ?thesis .
  qed
  have "\<not> is_sub ''tag'' c \<and> \<not> is_sub ''login'' c \<and> \<not> is_sub ''push'' c" if "is_sub ''pull'' c" for c
    using that by (auto simp: is_sub_def split: list.splits)
  with core show ?thesis by blast
qed

theorem pull_local_runs_only_pulls_witness:
  "calls (snd (main (demo_platform ''linux'' (first_fail 1))
      [''docker-mirror'', ''pull-local'', ''redis:7''] (demo_world (demo_config [''a.io'', ''b.io'']) []))) =
     [(''docker'', [''pull'', ''a.io/redis:7'']), (''docker'', [''pull'', ''b.io/redis:7''])] \<and>
   is_sub ''pull'' (''docker'', [''pull'', ''b.io/redis:7'']) \<and>
   fst (main (demo_platform ''linux'' (first_fail 1))
      [''docker-mirror'', ''pull-local'', ''redis:7''] (demo_world (demo_config [''a.io'', ''b.io'']) [])) = Return"
proof -
  let ?P = "demo_platform ''linux'' (first_fail 1)"
  let ?w0 = "demo_world (demo_config [''a.io'', ''b.io'']) []"
  let ?m = "main ?P [''docker-mirror'', ''pull-local'', ''redis:7''] ?w0"
  have start: "calls ?w0 = []"
    by (rule demo_calls)
  have run: "?m = (fst ?m, snd ?m)"
    by simp
  have cs: "calls (snd ?m) =
      [(''docker'', [''pull'', ''a.io/redis:7'']), (''docker'', [''pull'', ''b.io/redis:7''])]"
    by (subst main_pull_local_run [OF demo_GetConfigPath demo_LoadConfig_2])
      (simp add: pull_attempts_def Execute_def Let_def demo_config_def demo_platform_def
        first_fail_def demo_world_def println_def platform_args_def Sprintf_slash_def)
  have ok: "snd (outcome ?P (calls (snd ?m)) 1) = None"
    unfolding cs by (simp add: outcome_def demo_platform_def first_fail_def)
  have len: "1 < length (calls (snd ?m))"
    unfolding cs by simp
  from pull_local_runs_only_pulls [OF start run]
  have "\<forall>i<length (calls (snd ?m)). snd (outcome ?P (calls (snd ?m)) i) = None \<longrightarrow>
          Suc i = length (calls (snd ?m)) \<and> fst ?m = Return"
    by (rule conjunct2)
  with len ok have "fst ?m = Return"
    by blast
  with cs show ?thesis
    by (simp only: is_sub_simps simp_thms)
qed

text \<open>
  C6. In an invocation of \<open>pull\<close> or \<open>pull-local\<close> whose configured mirror list
  is empty, exactly one pull is run, it is the first command, and its target is the
  image reference as given, with no host in front.
\<close>

theorem empty_mirrors_one_bare_pull:
  assumes cmd: "cmd = ''pull'' \<or> cmd = ''pull-local''"
    and start: "calls w0 = []"
    and path: "GetConfigPath P w0 = (Inr path, w1)"
    and cfg: "LoadConfig P path w1 = Inr cfg"
    and empty: "DockerRegistries cfg = []"
    and run: "main P [prog, cmd, img] w0 = (ex, w)"
  shows "filter (is_sub ''pull'') (calls w) =
           [(''docker'', if GOOS P = ''darwin'' then [''pull'', ''--platform'', ''linux/amd64'', img]
                         else [''pull'', img])] \<and>
         take 1 (calls w) = filter (is_sub ''pull'') (calls w)"
proof -
  obtain pe pr wm where att: "pull_attempts P cfg img w1 = ((pe, pr), wm)"
    by (cases "pull_attempts P cfg img w1") auto
  from GetConfigPath_frame [OF path] start have "calls w1 = []" by simp
  with pull_attempts_trace [OF att] pull_targets_empty [OF empty]
  have c: "calls wm = [pull_call P img]"
    by auto
  have pc: "pull_call P img =
      (''docker'', if GOOS P = ''darwin'' then [''pull'', ''--platform'', ''linux/amd64'', img]
                   else [''pull'', img])"
    by (simp add: pull_call_def platform_args_def)
  from cmd show ?thesis
  proof
    assume "cmd = ''pull''"
    with run att have r: "(case pe of
            Some e \<Rightarrow> (Fatal AllPullsFailed, wm)
          | None \<Rightarrow> tag_login_push P cfg pr img (Sprintf_slash (Domain' (Registry cfg)) img) wm) = (ex, w)"
      by (simp add: main_pull_run [OF path cfg])
    show ?thesis
    proof (cases pe)
      case (Some e)
      with r c pc show ?thesis by auto
    next
      case None
      with r have "tag_login_push P cfg pr img (Sprintf_slash (Domain' (Registry cfg)) img) wm = (ex, w)"
        by simp
      from tag_login_push_calls [OF this] c pc show ?thesis by auto
    qed
  next
    assume "cmd = ''pull-local''"
    with run att have "calls w = calls wm"
      by (auto simp: main_pull_local_run [OF path cfg] split: option.splits)
    with c pc show ?thesis by auto
  qed
qed

theorem empty_mirrors_one_bare_pull_witness:
  "filter (is_sub ''pull'')
     (calls (snd (main (demo_platform ''darwin'' all_succeed) [''docker-mirror'', ''pull'', ''redis:7'']
        (demo_world (demo_config []) [])))) =
     [(''docker'', [''pull'', ''--platform'', ''linux/amd64'', ''redis:7''])] \<and>
   length (calls (snd (main (demo_platform ''darwin'' all_succeed) [''docker-mirror'', ''pull'', ''redis:7'']
        (demo_world (demo_config []) [])))) = 4"
proof -
  let ?P = "demo_platform ''darwin'' all_succeed"
  let ?w0 = "demo_world (demo_config []) []"
  have cmd: "''pull'' = ''pull'' \<or> ''pull'' = ''pull-local''"
    by simp
  have empty: "DockerRegistries (demo_config []) = []"
    by (simp add: demo_config_def)
  have len: "length (calls (snd (main ?P [''docker-mirror'', ''pull'', ''redis:7''] ?w0))) = 4"
    by (subst main_pull_run [OF demo_GetConfigPath demo_LoadConfig_0])
      (simp add: pull_attempts_def tag_login_push_def Execute_def Let_def demo_config_def demo_platform_def all_succeed_def
        demo_world_def println_def)
  have start: "calls ?w0 = []"
    by (rule demo_calls)
  have path: "GetConfigPath ?P ?w0 = (Inr ''/home/u/.config/docker-mirror/config.yaml'', ?w0)"
    by (rule demo_GetConfigPath)
  have cfg: "LoadConfig ?P ''/home/u/.config/docker-mirror/config.yaml'' ?w0 = Inr (demo_config [])"
    by (rule demo_LoadConfig_0)
  have run: "main ?P [''docker-mirror'', ''pull'', ''redis:7''] ?w0 =
      (fst (main ?P [''docker-mirror'', ''pull'', ''redis:7''] ?w0),
       snd (main ?P [''docker-mirror'', ''pull'', ''redis:7''] ?w0))"
    by simp
  from empty_mirrors_one_bare_pull [OF cmd start path cfg empty run] len
  show ?thesis
    by (simp add: demo_platform_def)
qed

text \<open>
  C7 (amended). When \<open>SaveConfig\<close> returns no error, \<open>LoadConfig\<close> of the same path
  succeeds and returns the record that was saved, provided the YAML library decodes what
  it encoded for this record and reading the file returns the bytes just written to it.
\<close>

theorem SaveConfig_LoadConfig_roundtrip:
  assumes "SaveConfig P path c w = (None, w')"
    and "\<forall>data. Marshal P c = Inr data \<longrightarrow> Unmarshal P data = Inr c"
    and "\<forall>data files. WriteFile P path data (fs w) = (None, files) \<longrightarrow>
           ReadFile P path files = Inr data"
  shows "LoadConfig P path w' = Inr c"
  using assms by (intro SaveConfig_LoadConfig [of P path c w w']) blast+

theorem SaveConfig_LoadConfig_roundtrip_witness:
  "fst (SaveConfig (demo_platform ''linux'' all_succeed) ''/tmp/config.yaml''
          (demo_config [''a.io'', ''b.io'']) (demo_world (demo_config []) [])) = None \<and>
   LoadConfig (demo_platform ''linux'' all_succeed) ''/tmp/config.yaml''
     (snd (SaveConfig (demo_platform ''linux'' all_succeed) ''/tmp/config.yaml''
          (demo_config [''a.io'', ''b.io'']) (demo_world (demo_config []) []))) =
     Inr (demo_config [''a.io'', ''b.io''])"
proof -
  let ?P = "demo_platform ''linux'' all_succeed"
  let ?c = "demo_config [''a.io'', ''b.io'']"
  let ?w = "demo_world (demo_config []) []"
  let ?s = "SaveConfig ?P ''/tmp/config.yaml'' ?c ?w"
  have ok: "fst ?s = None"
    by (simp add: SaveConfig_def demo_platform_def demo_Marshal_def)
  then have save: "?s = (None, snd ?s)"
    by (simp add: prod_eq_iff)
  have codec: "\<forall>data. Marshal ?P ?c = Inr data \<longrightarrow> Unmarshal ?P data = Inr ?c"
    using demo_codec by (auto simp: demo_platform_def)
  have disk: "\<forall>data files. WriteFile ?P ''/tmp/config.yaml'' data (fs ?w) = (None, files) \<longrightarrow>
           ReadFile ?P ''/tmp/config.yaml'' files = Inr data"
    by (auto simp: demo_platform_def)
  from SaveConfig_LoadConfig_roundtrip [OF save codec disk] ok show ?thesis
    by simp
qed

text \<open>
  C7 as stated fails for a path that cannot be written: for the empty path \<open>SaveConfig\<close>
  returns the error of the write, and \<open>LoadConfig\<close> of that path fails.
\<close>

theorem SaveConfig_unwritable_path_counterexample:
  "fst (SaveConfig (demo_platform ''linux'' all_succeed) ''''
          (demo_config [''a.io'', ''b.io'']) (demo_world (demo_config []) [])) =
     Some ''no such file or directory'' \<and>
   LoadConfig (demo_platform ''linux'' all_succeed) ''''
     (snd (SaveConfig (demo_platform ''linux'' all_succeed) ''''
          (demo_config [''a.io'', ''b.io'']) (demo_world (demo_config []) []))) =
     Inl ''no such file or directory''"
  by (simp add: SaveConfig_def LoadConfig_def demo_platform_def demo_Marshal_def demo_world_def)

text \<open>
  C8. \<open>Execute\<close> runs the command with the pair \<open>--platform\<close>, \<open>linux/amd64\<close> put
  right after the first argument exactly when the command is \<open>docker\<close>, the first
  argument is \<open>pull\<close> and the operating system is \<open>darwin\<close>; otherwise it runs the
  command with the arguments as given. It returns the output and the error of that run,
  prints the invocation, and leaves the file system and standard input alone.
\<close>

theorem Execute_platform_flag:
  "calls (snd (Execute P command args w)) =
     calls w @
       [(command,
         if command = ''docker'' \<and> args \<noteq> [] \<and> hd args = ''pull'' \<and> GOOS P = ''darwin''
         then hd args # ''--platform'' # ''linux/amd64'' # tl args
         else args)] \<and>
   fst (Execute P command args w) =
     CombinedOutput P (length (calls w)) command
       (if command = ''docker'' \<and> args \<noteq> [] \<and> hd args = ''pull'' \<and> GOOS P = ''darwin''
        then hd args # ''--platform'' # ''linux/amd64'' # tl args
        else args) \<and>
   stdout (snd (Execute P command args w)) =
     stdout w @
       [Invocation command
          (strings_Join
             (if command = ''docker'' \<and> args \<noteq> [] \<and> hd args = ''pull'' \<and> GOOS P = ''darwin''
              then hd args # ''--platform'' # ''linux/amd64'' # tl args
              else args) '' '')] \<and>
   fs (snd (Execute P command args w)) = fs w \<and>
   stdin (snd (Execute P command args w)) = stdin w"
proof -
  have args: "platform_args P command args =
      (if command = ''docker'' \<and> args \<noteq> [] \<and> hd args = ''pull'' \<and> GOOS P = ''darwin''
       then hd args # ''--platform'' # ''linux/amd64'' # tl args
       else args)"
    by (cases args) (simp_all add: platform_args_def)
  have out: "stdout (snd (Execute P command args w)) =
      stdout w @ [Invocation command (strings_Join (platform_args P command args) '' '')]"
    by (simp add: Execute_def Let_def split: prod.splits)
  show ?thesis
    unfolding args [symmetric]
    by (simp only: Execute_calls Execute_fst Execute_frame out simp_thms)
qed

theorem Execute_platform_flag_witness:
  "calls (snd (Execute (demo_platform ''darwin'' all_succeed) ''docker'' [''pull'', ''a.io/redis:7'']
      (demo_world (demo_config []) []))) =
     [(''docker'', [''pull'', ''--platform'', ''linux/amd64'', ''a.io/redis:7''])] \<and>
   calls (snd (Execute (demo_platform ''linux'' all_succeed) ''docker'' [''pull'', ''a.io/redis:7'']
      (demo_world (demo_config []) []))) =
     [(''docker'', [''pull'', ''a.io/redis:7''])] \<and>
   calls (snd (Execute (demo_platform ''darwin'' all_succeed) ''docker'' [''push'', ''a.io/redis:7'']
      (demo_world (demo_config []) []))) =
     [(''docker'', [''push'', ''a.io/redis:7''])]"
  using Execute_platform_flag [of "demo_platform ''darwin'' all_succeed" "''docker''"
      "[''pull'', ''a.io/redis:7'']" "demo_world (demo_config []) []"]
    Execute_platform_flag [of "demo_platform ''linux'' all_succeed" "''docker''"
      "[''pull'', ''a.io/redis:7'']" "demo_world (demo_config []) []"]
    Execute_platform_flag [of "demo_platform ''darwin'' all_succeed" "''docker''"
      "[''push'', ''a.io/redis:7'']" "demo_world (demo_config []) []"]
  by (simp add: demo_platform_def demo_world_def)

text \<open>
  C9 (amended). In a run of the \<open>config\<close> subcommand that has found its configuration
  path, the record handed to \<open>SaveConfig\<close> is made of the three prompted inputs alone:
  the trimmed lines read for the domain, the user name and the password, an empty
  project, and the three fixed mirror hosts; nothing of the file system enters it. When
  the save returns an error the process ends fatally; when it returns none the process
  returns normally, and then (the YAML library decoding what it encoded for this record,
  and a read of the file returning the bytes just written) loading the file yields
  exactly this record, whatever the file held before.
\<close>

theorem config_saves_prompted_defaults:
  assumes path: "GetConfigPath P w0 = (Inr path, w1)"
  shows
    "(let r1 = ReadString (stdin w0) [];
          r2 = ReadString (snd r1) [];
          r3 = ReadString (snd r2) [];
          c = \<lparr>Registry = \<lparr>Domain' = TrimSpace P (fst r1), Username = TrimSpace P (fst r2),
                            Password = TrimSpace P (fst r3), Project = ''''\<rparr>,
               DockerRegistries =
                 [''docker.m.daocloud.io'', ''quay.m.daocloud.io'', ''k8s.m.daocloud.io'']\<rparr>;
          w3 = w1\<lparr>stdout := stdout w0 @ [PromptDomain, PromptUsername, PromptPassword],
                  stdin := snd r3\<rparr>
      in main P (prog # ''config'' # rest) w0 =
           (case SaveConfig P path c w3 of
              (None, w') \<Rightarrow> (Return, println ConfigSaved w')
            | (Some err, w') \<Rightarrow> (Fatal (ConfigureError err), w')) \<and>
         (fst (main P (prog # ''config'' # rest) w0) = Return \<and>
          (\<forall>data. Marshal P c = Inr data \<longrightarrow> Unmarshal P data = Inr c) \<and>
          (\<forall>data files. WriteFile P path data (fs w1) = (None, files) \<longrightarrow>
             ReadFile P path files = Inr data) \<longrightarrow>
          LoadConfig P path (snd (main P (prog # ''config'' # rest) w0)) = Inr c))"
proof -
  define r1 where "r1 = ReadString (stdin w0) []"
  define r2 where "r2 = ReadString (snd r1) []"
  define r3 where "r3 = ReadString (snd r2) []"
  define c where "c =
    \<lparr>Registry = \<lparr>Domain' = TrimSpace P (fst r1), Username = TrimSpace P (fst r2),
                 Password = TrimSpace P (fst r3), Project = ''''\<rparr>,
     DockerRegistries = [''docker.m.daocloud.io'', ''quay.m.daocloud.io'', ''k8s.m.daocloud.io'']\<rparr>"
  define w3 where
    "w3 = w1\<lparr>stdout := stdout w0 @ [PromptDomain, PromptUsername, PromptPassword], stdin := snd r3\<rparr>"
  let ?m = "main P (prog # ''config'' # rest) w0"
  from GetConfigPath_frame [OF path] have same: "stdin w1 = stdin w0" "stdout w1 = stdout w0"
    by simp_all
  have conf: "Configure P path w1 = SaveConfig P path c w3"
    unfolding Configure_unfold same c_def w3_def r1_def r2_def r3_def ..
  have eq: "?m =
      (case SaveConfig P path c w3 of
         (None, w') \<Rightarrow> (Return, println ConfigSaved w')
       | (Some err, w') \<Rightarrow> (Fatal (ConfigureError err), w'))"
    using path by (simp add: main_def conf Let_def)
  have load: "LoadConfig P path (snd ?m) = Inr c"
    if ok: "fst ?m = Return"
      and codec: "\<forall>data. Marshal P c = Inr data \<longrightarrow> Unmarshal P data = Inr c"
      and disk: "\<forall>data files. WriteFile P path data (fs w1) = (None, files) \<longrightarrow>
           ReadFile P path files = Inr data"
  proof -
    obtain err w' where s: "SaveConfig P path c w3 = (err, w')"
      by (cases "SaveConfig P path c w3") auto
    with ok eq have none: "err = None"
      by (cases err) simp_all
    with s eq have m: "snd ?m = println ConfigSaved w'"
      by simp
    have "fs w3 = fs w1"
      by (simp add: w3_def)
    with s none codec disk have "LoadConfig P path w' = Inr c"
      by (intro SaveConfig_LoadConfig [of P path c w3 w']) auto
    then show ?thesis
      by (simp add: m LoadConfig_def)
  qed
  from eq load show ?thesis
    unfolding Let_def r1_def [symmetric] r2_def [symmetric] r3_def [symmetric]
      c_def [symmetric] w3_def [symmetric]
    by blast
qed

theorem config_saves_prompted_defaults_witness:
  "fst (main (demo_platform ''linux'' all_succeed) [''docker-mirror'', ''config'']
     (demo_world (demo_config [''old.io''])
        [''reg.io'' @ [CHR 0x0A], ''bob'' @ [CHR 0x0A], '' pw '' @ [CHR 0x0A]])) = Return \<and>
   LoadConfig (demo_platform ''linux'' all_succeed) ''/home/u/.config/docker-mirror/config.yaml''
     (demo_world (demo_config [''old.io''])
        [''reg.io'' @ [CHR 0x0A], ''bob'' @ [CHR 0x0A], '' pw '' @ [CHR 0x0A]]) =
     Inr (demo_config [''old.io'']) \<and>
   LoadConfig (demo_platform ''linux'' all_succeed) ''/home/u/.config/docker-mirror/config.yaml''
     (snd (main (demo_platform ''linux'' all_succeed) [''docker-mirror'', ''config'']
        (demo_world (demo_config [''old.io''])
           [''reg.io'' @ [CHR 0x0A], ''bob'' @ [CHR 0x0A], '' pw '' @ [CHR 0x0A]]))) =
     Inr \<lparr>Registry = \<lparr>Domain' = ''reg.io'', Username = ''bob'', Password = ''pw'', Project = ''''\<rparr>,
          DockerRegistries = [''docker.m.daocloud.io'', ''quay.m.daocloud.io'', ''k8s.m.daocloud.io'']\<rparr>"
proof -
  let ?P = "demo_platform ''linux'' all_succeed"
  let ?f = "''/home/u/.config/docker-mirror/config.yaml''"
  let ?w = "demo_world (demo_config [''old.io''])
           [''reg.io'' @ [CHR 0x0A], ''bob'' @ [CHR 0x0A], '' pw '' @ [CHR 0x0A]]"
  let ?c = "\<lparr>Registry = \<lparr>Domain' = ''reg.io'', Username = ''bob'', Password = ''pw'', Project = ''''\<rparr>,
          DockerRegistries = [''docker.m.daocloud.io'', ''quay.m.daocloud.io'', ''k8s.m.daocloud.io'']\<rparr>"
  let ?m = "main ?P [''docker-mirror'', ''config''] ?w"
  have old: "LoadConfig ?P ?f ?w = Inr (demo_config [''old.io''])"
    by (simp add: LoadConfig_def demo_platform_def demo_world_def demo_Marshal_def
      demo_Unmarshal_def demo_config_def)
  have path: "GetConfigPath ?P ?w = (Inr ?f, ?w)"
    by (rule demo_GetConfigPath)
  have r1: "ReadString (stdin ?w) [] = (''reg.io'' @ [CHR 0x0A], [''bob'' @ [CHR 0x0A], '' pw '' @ [CHR 0x0A]])"
    by (simp add: demo_world_def)
  have r2: "ReadString [''bob'' @ [CHR 0x0A], '' pw '' @ [CHR 0x0A]] [] = (''bob'' @ [CHR 0x0A], ['' pw '' @ [CHR 0x0A]])"
    by simp
  have r3: "ReadString ['' pw '' @ [CHR 0x0A]] [] = ('' pw '' @ [CHR 0x0A], [])"
    by simp
  have t: "TrimSpace ?P (''reg.io'' @ [CHR 0x0A]) = ''reg.io''"
    "TrimSpace ?P (''bob'' @ [CHR 0x0A]) = ''bob''"
    "TrimSpace ?P ('' pw '' @ [CHR 0x0A]) = ''pw''"
    by (simp_all add: demo_platform_def)
  note inst = config_saves_prompted_defaults [OF path, of "''docker-mirror''" "[]",
      unfolded Let_def r1 snd_conv fst_conv r2 r3 t]
  have ok: "fst ?m = Return"
    by (subst inst [THEN conjunct1]) (simp add: SaveConfig_def demo_platform_def demo_Marshal_def)
  have codec: "\<forall>data. Marshal ?P ?c = Inr data \<longrightarrow> Unmarshal ?P data = Inr ?c"
    by (simp add: demo_platform_def demo_Marshal_def demo_Unmarshal_def)
  have disk: "\<forall>data files. WriteFile ?P ?f data (fs ?w) = (None, files) \<longrightarrow>
           ReadFile ?P ?f files = Inr data"
    by (auto simp: demo_platform_def)
  from inst [THEN conjunct2] ok codec disk
  have "LoadConfig ?P ?f (snd ?m) = Inr ?c"
    by blast
  with ok old show ?thesis
    by (simp only: simp_thms)
qed

text \<open>
  C9 as stated fails when the file cannot be written: on a file system that refuses the
  write the \<open>config\<close> subcommand ends fatally with the error of the save, and the file
  still loads as the configuration it held before.
\<close>

theorem config_write_refused_counterexample:
  "fst (main (readonly_platform ''linux'' all_succeed) [''docker-mirror'', ''config'']
     (demo_world (demo_config [''old.io''])
        [''reg.io'' @ [CHR 0x0A], ''bob'' @ [CHR 0x0A], ''pw'' @ [CHR 0x0A]])) =
     Fatal (ConfigureError ''read-only file system'') \<and>
   LoadConfig (readonly_platform ''linux'' all_succeed) ''/home/u/.config/docker-mirror/config.yaml''
     (snd (main (readonly_platform ''linux'' all_succeed) [''docker-mirror'', ''config'']
        (demo_world (demo_config [''old.io''])
           [''reg.io'' @ [CHR 0x0A], ''bob'' @ [CHR 0x0A], ''pw'' @ [CHR 0x0A]]))) =
     Inr (demo_config [''old.io''])"
  by (simp add: main_def GetConfigPath_def Configure_def Prompt_def println_def SaveConfig_def
      LoadConfig_def Config_zero_def Let_def readonly_platform_def demo_platform_def
      demo_world_def demo_Marshal_def demo_Unmarshal_def demo_config_def)




end
